theory Spec2Isabelle
  imports Main "HOL-Library.Word"
begin

section \<open>JSON values, responses and errors\<close>

text \<open>
  Request and response bodies are JSON objects. A response is what
  \<^verbatim>\<open>res.status(n).json(obj)\<close> sends; a middleware either sends one or calls
  \<^verbatim>\<open>next()\<close>. Numbers are modelled as integers and dates as integer milliseconds
  since the epoch.
\<close>

datatype jvalue =
    JNull
  | JBool bool
  | JNum int
  | JStr string
  | JArr "jvalue list"
  | JObj "(string \<times> jvalue) list"

type_synonym json_object = "(string \<times> jvalue) list"

datatype outcome = Next | Respond nat json_object

text \<open>
  What a database call or an expression of the handlers can throw. Every handler wraps
  its body in one \<^verbatim>\<open>try { ... } catch (error) { ... }\<close>.
\<close>

datatype error =
    StoreUnavailable
  | ValidationError
  | DuplicateKeyError
  | CastError
  | TypeError

section \<open>Data model (models/ApiKey.js, models/RateLimit.js)\<close>

record api_key =
  doc_id :: nat
  key :: "string option"
  name :: string
  clientId :: string
  isActive :: bool
  rateLimit :: int
  usageCount :: int
  lastUsed :: "int option"
  createdAt :: int
  expiresAt :: "int option"
  allowedIPs :: "string list"
  contactEmail :: "string option"
  doc_notes :: "string option"

text \<open>
  \<open>doc_id\<close> is the document's \<^verbatim>\<open>_id\<close>. \<open>key\<close> is \<open>None\<close> on a document read
  with the projection \<^verbatim>\<open>.select('-key')\<close>, where the path is not loaded and
  \<^verbatim>\<open>doc.key\<close> is \<^verbatim>\<open>undefined\<close>; every stored document has a key. The unused
  \<^verbatim>\<open>metadata\<close> path is left out.
\<close>

record usage_event =
  ev_clientId :: string
  endpoint :: string
  timestamp :: int

text \<open>The object \<^verbatim>\<open>req.apiClient\<close> attached by the authentication middleware.\<close>

record api_client =
  ac_clientId :: string
  ac_name :: string
  ac_rateLimit :: int

text \<open>
  The parts of an Express request the middleware reads: the two headers, the requester
  address, the path, and the attached client (\<open>None\<close> is \<^verbatim>\<open>undefined\<close>).
\<close>

record request =
  x_api_key :: "string option"
  authorization :: "string option"
  ip :: "string option"
  remoteAddress :: "string option"
  path :: string
  apiClient :: "api_client option"

section \<open>Collection operations\<close>

text \<open>
  A collection is the list of its documents in insertion order. Each operation takes a
  flag saying that the call throws for a reason outside the model (the database is
  unreachable, a timeout); the schema's own \<^verbatim>\<open>required\<close> and \<^verbatim>\<open>unique\<close>
  declarations are checked explicitly.
\<close>

definition ApiKey_findOne ::
  "bool \<Rightarrow> api_key list \<Rightarrow> (api_key \<Rightarrow> bool) \<Rightarrow> error + api_key option" where
  "ApiKey_findOne throws store q =
     (if throws then Inl StoreUnavailable else Inr (find q store))"

text \<open>\<^verbatim>\<open>required: true\<close> on a String path rejects a missing and an empty string.\<close>

definition required_ok :: "api_key \<Rightarrow> bool" where
  "required_ok d \<longleftrightarrow>
     key d \<noteq> None \<and> key d \<noteq> Some [] \<and> name d \<noteq> [] \<and> clientId d \<noteq> []"

text \<open>The unique indexes on \<^verbatim>\<open>key\<close> and \<^verbatim>\<open>clientId\<close>, seen from document \<open>d\<close>.\<close>

definition unique_ok :: "api_key list \<Rightarrow> api_key \<Rightarrow> bool" where
  "unique_ok store d \<longleftrightarrow>
     \<not> list_ex (\<lambda>e. doc_id e \<noteq> doc_id d \<and> (key e = key d \<or> clientId e = clientId d)) store"

text \<open>Writing to, and removing, the first document that matches a filter.\<close>

fun replace_first :: "(api_key \<Rightarrow> bool) \<Rightarrow> api_key \<Rightarrow> api_key list \<Rightarrow> api_key list" where
  "replace_first q d [] = []"
| "replace_first q d (e # es) = (if q e then d # es else e # replace_first q d es)"

fun delete_first :: "(api_key \<Rightarrow> bool) \<Rightarrow> api_key list \<Rightarrow> api_key list" where
  "delete_first q [] = []"
| "delete_first q (e # es) = (if q e then es else e # delete_first q es)"

definition replace_doc :: "api_key \<Rightarrow> api_key list \<Rightarrow> api_key list" where
  "replace_doc d store = replace_first (\<lambda>e. doc_id e = doc_id d) d store"

text \<open>
  A write to an existing document violates a unique index only through a path it changes:
  \<open>orig\<close> is the document as it was read, \<open>d\<close> the document to be written.
\<close>

definition index_violation :: "api_key list \<Rightarrow> api_key \<Rightarrow> api_key \<Rightarrow> bool" where
  "index_violation store orig d \<longleftrightarrow>
     (key d \<noteq> key orig \<and> list_ex (\<lambda>e. doc_id e \<noteq> doc_id d \<and> key e = key d) store) \<or>
     (clientId d \<noteq> clientId orig \<and>
      list_ex (\<lambda>e. doc_id e \<noteq> doc_id d \<and> clientId e = clientId d) store)"

text \<open>
  \<^verbatim>\<open>doc.save()\<close> on a document read from the collection and then modified: validate,
  then write the document back under its \<^verbatim>\<open>_id\<close>.
\<close>

definition ApiKey_save ::
  "bool \<Rightarrow> api_key list \<Rightarrow> api_key \<Rightarrow> api_key \<Rightarrow> error + api_key list" where
  "ApiKey_save throws store orig d =
     (if throws then Inl StoreUnavailable
      else if \<not> required_ok d then Inl ValidationError
      else if index_violation store orig d then Inl DuplicateKeyError
      else Inr (replace_doc d store))"

text \<open>
  \<^verbatim>\<open>RateLimit.countDocuments({ clientId, timestamp: { $gte: oneHourAgo } })\<close>
\<close>

definition RateLimit_countDocuments ::
  "bool \<Rightarrow> usage_event list \<Rightarrow> string \<Rightarrow> int \<Rightarrow> error + nat" where
  "RateLimit_countDocuments throws ledger cid since =
     (if throws then Inl StoreUnavailable
      else Inr (length (filter (\<lambda>e. ev_clientId e = cid \<and> since \<le> timestamp e) ledger)))"

text \<open>
  \<^verbatim>\<open>RateLimit.create(...)\<close>; \<^verbatim>\<open>clientId\<close> and \<^verbatim>\<open>endpoint\<close> are required.
  The TTL index of the collection removes, in the background, only events older than one
  hour, which the count above never sees; that removal is not a step of the handlers.
\<close>

definition RateLimit_create ::
  "bool \<Rightarrow> usage_event list \<Rightarrow> usage_event \<Rightarrow> error + usage_event list" where
  "RateLimit_create throws ledger ev =
     (if throws then Inl StoreUnavailable
      else if ev_clientId ev = [] \<or> endpoint ev = [] then Inl ValidationError
      else Inr (ledger @ [ev]))"

section \<open>middleware/apiKeyAuth.js\<close>

text \<open>
  \<^verbatim>\<open>String.prototype.replace\<close> with a string pattern replaces the first occurrence.
\<close>

fun str_replace :: "string \<Rightarrow> string \<Rightarrow> string \<Rightarrow> string" where
  "str_replace pat rep [] = (if pat = [] then rep else [])"
| "str_replace pat rep (c # cs) =
     (if take (length pat) (c # cs) = pat then rep @ drop (length pat) (c # cs)
      else c # str_replace pat rep cs)"

text \<open>
  \<^verbatim>\<open>req.headers['x-api-key'] || req.headers['authorization']?.replace('Bearer ', '')\<close>:
  an absent or empty first header is falsy, so the second operand is taken.
\<close>

definition extractApiKey :: "request \<Rightarrow> string option" where
  "extractApiKey req =
     (case x_api_key req of
        Some k \<Rightarrow> if k \<noteq> [] then Some k
                  else map_option (str_replace ''Bearer '' []) (authorization req)
      | None \<Rightarrow> map_option (str_replace ''Bearer '' []) (authorization req))"

text \<open>\<^verbatim>\<open>req.ip || req.connection.remoteAddress\<close>\<close>

definition clientIP :: "request \<Rightarrow> string option" where
  "clientIP req =
     (case ip req of
        Some a \<Rightarrow> if a \<noteq> [] then Some a else remoteAddress req
      | None \<Rightarrow> remoteAddress req)"

definition auth_failure :: "nat \<Rightarrow> string \<Rightarrow> string \<Rightarrow> outcome" where
  "auth_failure st msg c =
     Respond st [(''success'', JBool False), (''error'', JStr msg), (''code'', JStr c)]"

text \<open>
  The body of the \<^verbatim>\<open>try\<close> block of \<^verbatim>\<open>authenticateApiKey\<close>. The result is the
  outcome, the request (with \<^verbatim>\<open>req.apiClient\<close> set on success) and the key collection.
\<close>

definition authenticateApiKey_try ::
  "bool \<Rightarrow> bool \<Rightarrow> int \<Rightarrow> api_key list \<Rightarrow> request
     \<Rightarrow> error + (outcome \<times> request \<times> api_key list)" where
  "authenticateApiKey_try find_throws save_throws now store req =
     (case extractApiKey req of
        None \<Rightarrow> Inr (auth_failure 401 ''API key is required'' ''MISSING_API_KEY'', req, store)
      | Some apiKey \<Rightarrow>
          if apiKey = [] then
            Inr (auth_failure 401 ''API key is required'' ''MISSING_API_KEY'', req, store)
          else
            (case ApiKey_findOne find_throws store (\<lambda>d. key d = Some apiKey) of
               Inl e \<Rightarrow> Inl e
             | Inr None \<Rightarrow>
                 Inr (auth_failure 401 ''Invalid API key'' ''INVALID_API_KEY'', req, store)
             | Inr (Some keyDoc) \<Rightarrow>
                 if \<not> isActive keyDoc then
                   Inr (auth_failure 403 ''API key is disabled'' ''DISABLED_API_KEY'', req, store)
                 else if (case expiresAt keyDoc of None \<Rightarrow> False | Some e \<Rightarrow> now > e) then
                   Inr (auth_failure 403 ''API key has expired'' ''EXPIRED_API_KEY'', req, store)
                 else if allowedIPs keyDoc \<noteq> [] \<and>
                         (case clientIP req of None \<Rightarrow> True
                          | Some a \<Rightarrow> a \<notin> set (allowedIPs keyDoc)) then
                   Inr (auth_failure 403 ''IP address not allowed'' ''IP_NOT_ALLOWED'', req, store)
                 else
                   (case ApiKey_save save_throws store keyDoc
                           (keyDoc\<lparr>usageCount := usageCount keyDoc + 1, lastUsed := Some now\<rparr>) of
                      Inl e \<Rightarrow> Inl e
                    | Inr store' \<Rightarrow>
                        Inr (Next,
                             req\<lparr>apiClient := Some \<lparr>ac_clientId = clientId keyDoc,
                                                     ac_name = name keyDoc,
                                                     ac_rateLimit = rateLimit keyDoc\<rparr>\<rparr>,
                             store'))))"

definition authenticateApiKey ::
  "bool \<Rightarrow> bool \<Rightarrow> int \<Rightarrow> api_key list \<Rightarrow> request \<Rightarrow> outcome \<times> request \<times> api_key list" where
  "authenticateApiKey find_throws save_throws now store req =
     (case authenticateApiKey_try find_throws save_throws now store req of
        Inr r \<Rightarrow> r
      | Inl e \<Rightarrow> (auth_failure 500 ''Authentication failed'' ''AUTH_ERROR'', req, store))"

text \<open>
  \<^verbatim>\<open>rateLimitByApiKey\<close>: the body of the \<^verbatim>\<open>try\<close> block, then the handler with its
  \<^verbatim>\<open>catch\<close>, which calls \<^verbatim>\<open>next()\<close>. Reading \<^verbatim>\<open>req.apiClient.clientId\<close> of an
  unset \<^verbatim>\<open>req.apiClient\<close> throws a TypeError inside the \<^verbatim>\<open>try\<close>.
\<close>

definition rateLimitByApiKey_try ::
  "bool \<Rightarrow> bool \<Rightarrow> int \<Rightarrow> usage_event list \<Rightarrow> request
     \<Rightarrow> error + (outcome \<times> usage_event list)" where
  "rateLimitByApiKey_try count_throws create_throws now ledger req =
     (case apiClient req of
        None \<Rightarrow> Inl TypeError
      | Some ac \<Rightarrow>
          (let oneHourAgo = now - 60 * 60 * 1000 in
           case RateLimit_countDocuments count_throws ledger (ac_clientId ac) oneHourAgo of
             Inl e \<Rightarrow> Inl e
           | Inr requestCount \<Rightarrow>
               if int requestCount \<ge> ac_rateLimit ac then
                 Inr (Respond 429
                        [(''success'', JBool False),
                         (''error'', JStr ''Rate limit exceeded''),
                         (''code'', JStr ''RATE_LIMIT_EXCEEDED''),
                         (''limit'', JNum (ac_rateLimit ac)),
                         (''retryAfter'', JNum 3600)],
                      ledger)
               else
                 (case RateLimit_create create_throws ledger
                         \<lparr>ev_clientId = ac_clientId ac, endpoint = path req, timestamp = now\<rparr> of
                    Inl e \<Rightarrow> Inl e
                  | Inr ledger' \<Rightarrow> Inr (Next, ledger'))))"

definition rateLimitByApiKey ::
  "bool \<Rightarrow> bool \<Rightarrow> int \<Rightarrow> usage_event list \<Rightarrow> request \<Rightarrow> outcome \<times> usage_event list" where
  "rateLimitByApiKey count_throws create_throws now ledger req =
     (case rateLimitByApiKey_try count_throws create_throws now ledger req of
        Inr r \<Rightarrow> r
      | Inl e \<Rightarrow> (Next, ledger))"


section \<open>Further collection operations used by the admin controller\<close>

text \<open>
  \<^verbatim>\<open>trim: true\<close> on \<^verbatim>\<open>name\<close>: leading and trailing white space is removed when the
  path is set (the ASCII white-space characters; strings are byte strings here).
\<close>

definition is_space :: "char \<Rightarrow> bool" where
  "is_space c \<longleftrightarrow> c \<in> set [CHR '' '', CHR 0x09, CHR 0x0A, CHR 0x0B, CHR 0x0C, CHR 0x0D]"

definition trim :: "string \<Rightarrow> string" where
  "trim s = rev (dropWhile is_space (rev (dropWhile is_space s)))"

text \<open>A new \<^verbatim>\<open>_id\<close> differs from every stored one.\<close>

definition fresh_id :: "api_key list \<Rightarrow> nat" where
  "fresh_id store = Suc (fold max (map doc_id store) 0)"

text \<open>
  A JavaScript \<^verbatim>\<open>Date\<close> holds a time value of at most 8.64e15 milliseconds on either
  side of the epoch; \<^verbatim>\<open>new Date(t)\<close> is an Invalid Date for any other \<open>t\<close>, and the
  cast of a Date path rejects an Invalid Date.
\<close>

definition valid_time :: "int \<Rightarrow> bool" where
  "valid_time t \<longleftrightarrow> - 8640000000000000 \<le> t \<and> t \<le> 8640000000000000"

text \<open>
  \<^verbatim>\<open>ApiKey.create({ key, name, clientId, rateLimit, expiresAt, allowedIPs, contactEmail,
  notes })\<close>: the schema defaults fill \<^verbatim>\<open>isActive\<close>, \<^verbatim>\<open>usageCount\<close> and
  \<^verbatim>\<open>createdAt\<close>; the document is cast, validated and inserted. \<open>ex\<close> is the time
  value of the \<^verbatim>\<open>expiresAt\<close> handed over, \<open>None\<close> for \<^verbatim>\<open>null\<close>.
\<close>

definition ApiKey_create ::
  "bool \<Rightarrow> int \<Rightarrow> api_key list \<Rightarrow> string \<Rightarrow> string \<Rightarrow> string \<Rightarrow> int \<Rightarrow> int option
     \<Rightarrow> string list \<Rightarrow> string option \<Rightarrow> string option \<Rightarrow> error + (api_key \<times> api_key list)" where
  "ApiKey_create throws now store k nm cid rl ex ips email nts =
     (let d = \<lparr>doc_id = fresh_id store, key = Some k, name = trim nm, clientId = cid,
                isActive = True, rateLimit = rl, usageCount = 0, lastUsed = None,
                createdAt = now, expiresAt = ex, allowedIPs = ips, contactEmail = email,
                doc_notes = nts\<rparr>
      in if (case ex of None \<Rightarrow> False | Some t \<Rightarrow> \<not> valid_time t) then Inl CastError
         else if \<not> required_ok d then Inl ValidationError
         else if throws then Inl StoreUnavailable
         else if \<not> unique_ok store d then Inl DuplicateKeyError
         else Inr (d, store @ [d]))"

definition ApiKey_find ::
  "bool \<Rightarrow> api_key list \<Rightarrow> (api_key \<Rightarrow> bool) \<Rightarrow> error + api_key list" where
  "ApiKey_find throws store q =
     (if throws then Inl StoreUnavailable else Inr (filter q store))"

text \<open>\<^verbatim>\<open>.select('-key')\<close>: the projection leaves the \<^verbatim>\<open>key\<close> path out.\<close>

definition select_minus_key :: "api_key \<Rightarrow> api_key" where
  "select_minus_key d = d\<lparr>key := None\<rparr>"

text \<open>
  Setting one path of a document from a JSON value, as an update query does. Every path
  of the schema can be set; a path the schema does not declare is dropped (strict mode).
  A value of the path's own JSON type is accepted, and \<^verbatim>\<open>null\<close> clears an optional
  path. With \<^verbatim>\<open>runValidators\<close> the \<^verbatim>\<open>required\<close> validator of the path runs.

  Limits of the model: the library also coerces some values of another type (the string
  \<^verbatim>\<open>'7'\<close> for a Number path) and stores \<^verbatim>\<open>null\<close> on any path. The record above
  has no place for a \<^verbatim>\<open>null\<close> flag or limit, and numbers are integers, so here every
  such value ends in a cast error. The theorems on \<^verbatim>\<open>updateApiKey\<close> below hold for
  either behaviour: they speak of which paths an update can reach, not of the value an
  allowed path receives.
\<close>

fun cast_strings :: "jvalue list \<Rightarrow> string list option" where
  "cast_strings [] = Some []"
| "cast_strings (JStr s # vs) = map_option ((#) s) (cast_strings vs)"
| "cast_strings (_ # vs) = None"

definition set_path :: "bool \<Rightarrow> string \<Rightarrow> jvalue \<Rightarrow> api_key \<Rightarrow> error + api_key" where
  "set_path runValidators field v d =
     (if field = ''key'' then
        (case v of JStr s \<Rightarrow> if runValidators \<and> s = [] then Inl ValidationError
                             else Inr (d\<lparr>key := Some s\<rparr>)
         | _ \<Rightarrow> Inl CastError)
      else if field = ''name'' then
        (case v of JStr s \<Rightarrow> if runValidators \<and> trim s = [] then Inl ValidationError
                             else Inr (d\<lparr>name := trim s\<rparr>)
         | _ \<Rightarrow> Inl CastError)
      else if field = ''clientId'' then
        (case v of JStr s \<Rightarrow> if runValidators \<and> s = [] then Inl ValidationError
                             else Inr (d\<lparr>clientId := s\<rparr>)
         | _ \<Rightarrow> Inl CastError)
      else if field = ''isActive'' then
        (case v of JBool b \<Rightarrow> Inr (d\<lparr>isActive := b\<rparr>) | _ \<Rightarrow> Inl CastError)
      else if field = ''rateLimit'' then
        (case v of JNum n \<Rightarrow> Inr (d\<lparr>rateLimit := n\<rparr>) | _ \<Rightarrow> Inl CastError)
      else if field = ''usageCount'' then
        (case v of JNum n \<Rightarrow> Inr (d\<lparr>usageCount := n\<rparr>) | _ \<Rightarrow> Inl CastError)
      else if field = ''lastUsed'' then
        (case v of JNum n \<Rightarrow> if valid_time n then Inr (d\<lparr>lastUsed := Some n\<rparr>)
                             else Inl CastError
         | JNull \<Rightarrow> Inr (d\<lparr>lastUsed := None\<rparr>) | _ \<Rightarrow> Inl CastError)
      else if field = ''createdAt'' then
        (case v of JNum n \<Rightarrow> if valid_time n then Inr (d\<lparr>createdAt := n\<rparr>)
                             else Inl CastError
         | _ \<Rightarrow> Inl CastError)
      else if field = ''expiresAt'' then
        (case v of JNum n \<Rightarrow> if valid_time n then Inr (d\<lparr>expiresAt := Some n\<rparr>)
                             else Inl CastError
         | JNull \<Rightarrow> Inr (d\<lparr>expiresAt := None\<rparr>) | _ \<Rightarrow> Inl CastError)
      else if field = ''allowedIPs'' then
        (case v of JArr vs \<Rightarrow>
             (case cast_strings vs of Some ips \<Rightarrow> Inr (d\<lparr>allowedIPs := ips\<rparr>)
              | None \<Rightarrow> Inl CastError)
         | _ \<Rightarrow> Inl CastError)
      else if field = ''contactEmail'' then
        (case v of JStr s \<Rightarrow> Inr (d\<lparr>contactEmail := Some s\<rparr>)
         | JNull \<Rightarrow> Inr (d\<lparr>contactEmail := None\<rparr>) | _ \<Rightarrow> Inl CastError)
      else if field = ''notes'' then
        (case v of JStr s \<Rightarrow> Inr (d\<lparr>doc_notes := Some s\<rparr>)
         | JNull \<Rightarrow> Inr (d\<lparr>doc_notes := None\<rparr>) | _ \<Rightarrow> Inl CastError)
      else Inr d)"

fun set_paths :: "bool \<Rightarrow> json_object \<Rightarrow> api_key \<Rightarrow> error + api_key" where
  "set_paths rv [] d = Inr d"
| "set_paths rv ((field, v) # us) d =
     (case set_path rv field v d of Inl e \<Rightarrow> Inl e | Inr d' \<Rightarrow> set_paths rv us d')"

text \<open>
  \<^verbatim>\<open>ApiKey.findOneAndUpdate(filter, updates, options)\<close>: the first matching document
  is updated in place and returned; without a match nothing is written and the result is
  \<^verbatim>\<open>null\<close>. A rejected update writes nothing.
\<close>

definition ApiKey_findOneAndUpdate ::
  "bool \<Rightarrow> bool \<Rightarrow> api_key list \<Rightarrow> (api_key \<Rightarrow> bool) \<Rightarrow> json_object
     \<Rightarrow> error + (api_key option \<times> api_key list)" where
  "ApiKey_findOneAndUpdate throws runValidators store q updates =
     (if throws then Inl StoreUnavailable
      else case find q store of
             None \<Rightarrow> Inr (None, store)
           | Some d \<Rightarrow>
               (case set_paths runValidators updates d of
                  Inl e \<Rightarrow> Inl e
                | Inr d' \<Rightarrow>
                    if index_violation store d d' then Inl DuplicateKeyError
                    else Inr (Some d', replace_first q d' store)))"

text \<open>\<^verbatim>\<open>ApiKey.findOneAndDelete(filter)\<close>\<close>

definition ApiKey_findOneAndDelete ::
  "bool \<Rightarrow> api_key list \<Rightarrow> (api_key \<Rightarrow> bool) \<Rightarrow> error + (api_key option \<times> api_key list)" where
  "ApiKey_findOneAndDelete throws store q =
     (if throws then Inl StoreUnavailable
      else Inr (find q store, delete_first q store))"


section \<open>generateApiKey\<close>

text \<open>
  \<^verbatim>\<open>crypto.randomBytes(32).toString('hex')\<close>: the bytes drawn are an input of the
  model; the key is the prefix, an underscore and two lower-case hex digits per byte.
\<close>

definition hex_digit :: "nat \<Rightarrow> char" where
  "hex_digit n = ''0123456789abcdef'' ! (n mod 16)"

definition hex_of_byte :: "8 word \<Rightarrow> string" where
  "hex_of_byte b = [hex_digit (unat b div 16), hex_digit (unat b mod 16)]"

definition generateApiKey :: "string \<Rightarrow> 8 word list \<Rightarrow> string" where
  "generateApiKey prefix randomBytes = prefix @ ''_'' @ concat (map hex_of_byte randomBytes)"

section \<open>controllers/adminController.js\<close>

definition jdate :: "int option \<Rightarrow> jvalue" where
  "jdate t = (case t of None \<Rightarrow> JNull | Some ms \<Rightarrow> JNum ms)"

definition jstring :: "string option \<Rightarrow> jvalue" where
  "jstring x = (case x of None \<Rightarrow> JNull | Some s \<Rightarrow> JStr s)"

text \<open>The fields \<^verbatim>\<open>createApiKey\<close> destructures from \<^verbatim>\<open>req.body\<close>.\<close>

record create_body =
  body_name :: "string option"
  body_clientId :: "string option"
  body_rateLimit :: "int option"
  body_expiresInDays :: "int option"
  body_allowedIPs :: "string list option"
  body_contactEmail :: "string option"
  body_notes :: "string option"

text \<open>
  \<^verbatim>\<open>error.message\<close>: the library's text is represented by the kind of the error.
\<close>

fun error_message :: "error \<Rightarrow> string" where
  "error_message StoreUnavailable = ''StoreUnavailable''"
| "error_message ValidationError = ''ValidationError''"
| "error_message DuplicateKeyError = ''DuplicateKeyError''"
| "error_message CastError = ''CastError''"
| "error_message TypeError = ''TypeError''"

definition createApiKey_try ::
  "bool \<Rightarrow> bool \<Rightarrow> int \<Rightarrow> 8 word list \<Rightarrow> api_key list \<Rightarrow> create_body
     \<Rightarrow> error + (outcome \<times> api_key list)" where
  "createApiKey_try find_throws create_throws now randomBytes store body =
     (let rateLimit' = (case body_rateLimit body of None \<Rightarrow> 100 | Some r \<Rightarrow> r);
          allowedIPs' = (case body_allowedIPs body of None \<Rightarrow> [] | Some l \<Rightarrow> l);
          missing = Respond 400 [(''success'', JBool False),
                                 (''error'', JStr ''name and clientId are required'')]
      in case (body_name body, body_clientId body) of
           (Some name', Some clientId') \<Rightarrow>
             if name' = [] \<or> clientId' = [] then Inr (missing, store)
             else
               (case ApiKey_findOne find_throws store (\<lambda>d. clientId d = clientId') of
                  Inl e \<Rightarrow> Inl e
                | Inr (Some existing) \<Rightarrow>
                    Inr (Respond 400 [(''success'', JBool False),
                                      (''error'', JStr ''Client ID already exists'')], store)
                | Inr None \<Rightarrow>
                    (let key' = generateApiKey ''sk'' randomBytes;
                         expiresAt' =
                           (case body_expiresInDays body of
                              None \<Rightarrow> None
                            | Some n \<Rightarrow> if n = 0 then None
                                        else Some (now + n * 24 * 60 * 60 * 1000))
                     in case ApiKey_create create_throws now store key' name' clientId'
                               rateLimit' expiresAt' allowedIPs'
                               (body_contactEmail body) (body_notes body) of
                          Inl e \<Rightarrow> Inl e
                        | Inr (apiKey, store') \<Rightarrow>
                            Inr (Respond 201
                                   [(''success'', JBool True),
                                    (''message'', JStr ''API key created successfully''),
                                    (''data'', JObj
                                       [(''apiKey'', JStr key'),
                                        (''clientId'', JStr (clientId apiKey)),
                                        (''name'', JStr (name apiKey)),
                                        (''rateLimit'', JNum (rateLimit apiKey)),
                                        (''expiresAt'', jdate (expiresAt apiKey)),
                                        (''createdAt'', JNum (createdAt apiKey))]),
                                    (''warning'', JStr
                                       ''Save this API key securely. It will not be shown again.'')],
                                 store')))
         | _ \<Rightarrow> Inr (missing, store))"

definition createApiKey ::
  "bool \<Rightarrow> bool \<Rightarrow> int \<Rightarrow> 8 word list \<Rightarrow> api_key list \<Rightarrow> create_body
     \<Rightarrow> outcome \<times> api_key list" where
  "createApiKey find_throws create_throws now randomBytes store body =
     (case createApiKey_try find_throws create_throws now randomBytes store body of
        Inr r \<Rightarrow> r
      | Inl e \<Rightarrow>
          (Respond 500 [(''success'', JBool False),
                        (''error'', JStr ''Failed to create API key''),
                        (''message'', JStr (error_message e))], store))"

text \<open>
  \<^verbatim>\<open>listApiKeys\<close>. The query filters on \<^verbatim>\<open>active\<close> and \<^verbatim>\<open>search\<close>; the
  case-insensitive regular-expression match of MongoDB is the parameter \<open>rx\<close>. Each
  entry reads \<^verbatim>\<open>k.key.slice(-8)\<close>, which throws a TypeError when \<^verbatim>\<open>k.key\<close> is
  \<^verbatim>\<open>undefined\<close>.
\<close>

definition bullets :: string where
  "bullets = concat (replicate 8 [CHR 0xE2, CHR 0x80, CHR 0xA2])"

definition keyPreview :: "api_key \<Rightarrow> error + jvalue" where
  "keyPreview k =
     (case key k of
        None \<Rightarrow> Inl TypeError
      | Some s \<Rightarrow> Inr (JStr (bullets @ drop (length s - 8) s)))"

definition list_entry :: "api_key \<Rightarrow> error + jvalue" where
  "list_entry k =
     (case keyPreview k of
        Inl e \<Rightarrow> Inl e
      | Inr p \<Rightarrow>
          Inr (JObj [(''id'', JNum (int (doc_id k))),
                     (''name'', JStr (name k)),
                     (''clientId'', JStr (clientId k)),
                     (''isActive'', JBool (isActive k)),
                     (''rateLimit'', JNum (rateLimit k)),
                     (''usageCount'', JNum (usageCount k)),
                     (''lastUsed'', jdate (lastUsed k)),
                     (''createdAt'', JNum (createdAt k)),
                     (''expiresAt'', jdate (expiresAt k)),
                     (''contactEmail'', jstring (contactEmail k)),
                     (''keyPreview'', p)]))"

fun map_entries :: "api_key list \<Rightarrow> error + jvalue list" where
  "map_entries [] = Inr []"
| "map_entries (k # ks) =
     (case list_entry k of
        Inl e \<Rightarrow> Inl e
      | Inr j \<Rightarrow> (case map_entries ks of Inl e \<Rightarrow> Inl e | Inr js \<Rightarrow> Inr (j # js)))"

definition list_query ::
  "(string \<Rightarrow> string \<Rightarrow> bool) \<Rightarrow> string option \<Rightarrow> string option \<Rightarrow> api_key \<Rightarrow> bool" where
  "list_query rx active search d \<longleftrightarrow>
     (case active of None \<Rightarrow> True | Some a \<Rightarrow> isActive d = (a = ''true'')) \<and>
     (case search of
        None \<Rightarrow> True
      | Some s \<Rightarrow> if s = [] then True else rx s (name d) \<or> rx s (clientId d))"

definition listApiKeys_try ::
  "(string \<Rightarrow> string \<Rightarrow> bool) \<Rightarrow> bool \<Rightarrow> api_key list \<Rightarrow> string option \<Rightarrow> string option
     \<Rightarrow> error + outcome" where
  "listApiKeys_try rx find_throws store active search =
     (case ApiKey_find find_throws store (list_query rx active search) of
        Inl e \<Rightarrow> Inl e
      | Inr found \<Rightarrow>
          (let keys = sort_key (\<lambda>d. - createdAt d) (map select_minus_key found)
           in case map_entries keys of
                Inl e \<Rightarrow> Inl e
              | Inr entries \<Rightarrow>
                  Inr (Respond 200 [(''success'', JBool True),
                                    (''count'', JNum (int (length keys))),
                                    (''data'', JArr entries)])))"

definition listApiKeys ::
  "(string \<Rightarrow> string \<Rightarrow> bool) \<Rightarrow> bool \<Rightarrow> api_key list \<Rightarrow> string option \<Rightarrow> string option
     \<Rightarrow> outcome" where
  "listApiKeys rx find_throws store active search =
     (case listApiKeys_try rx find_throws store active search of
        Inr r \<Rightarrow> r
      | Inl e \<Rightarrow> Respond 500 [(''success'', JBool False),
                              (''error'', JStr ''Failed to list API keys'')])"

text \<open>\<^verbatim>\<open>getApiKey\<close>\<close>

definition getApiKey :: "bool \<Rightarrow> api_key list \<Rightarrow> string \<Rightarrow> outcome" where
  "getApiKey find_throws store cid =
     (case (case ApiKey_findOne find_throws store (\<lambda>d. clientId d = cid) of
              Inl e \<Rightarrow> Inl e
            | Inr None \<Rightarrow>
                Inr (Respond 404 [(''success'', JBool False),
                                  (''error'', JStr ''API key not found'')])
            | Inr (Some found) \<Rightarrow>
                (let apiKey = select_minus_key found
                 in case keyPreview apiKey of
                      Inl e \<Rightarrow> Inl e
                    | Inr p \<Rightarrow>
                        Inr (Respond 200
                               [(''success'', JBool True),
                                (''data'', JObj
                                   [(''id'', JNum (int (doc_id apiKey))),
                                    (''name'', JStr (name apiKey)),
                                    (''clientId'', JStr (clientId apiKey)),
                                    (''isActive'', JBool (isActive apiKey)),
                                    (''rateLimit'', JNum (rateLimit apiKey)),
                                    (''usageCount'', JNum (usageCount apiKey)),
                                    (''lastUsed'', jdate (lastUsed apiKey)),
                                    (''createdAt'', JNum (createdAt apiKey)),
                                    (''expiresAt'', jdate (expiresAt apiKey)),
                                    (''allowedIPs'', JArr (map JStr (allowedIPs apiKey))),
                                    (''contactEmail'', jstring (contactEmail apiKey)),
                                    (''notes'', jstring (doc_notes apiKey)),
                                    (''keyPreview'', p)])]))) of
        Inr r \<Rightarrow> r
      | Inl e \<Rightarrow> Respond 500 [(''success'', JBool False),
                              (''error'', JStr ''Failed to fetch API key'')])"


text \<open>
  \<^verbatim>\<open>updateApiKey\<close>. \<^verbatim>\<open>req.body\<close> is any JSON object, a map from field names to
  values; \<open>None\<close> is \<^verbatim>\<open>undefined\<close>. The loop over \<^verbatim>\<open>allowedUpdates\<close> copies
  the fields that are present into \<^verbatim>\<open>updates\<close>.
\<close>

definition allowedUpdates :: "string list" where
  "allowedUpdates =
     [''name'', ''isActive'', ''rateLimit'', ''expiresAt'', ''allowedIPs'', ''contactEmail'',
      ''notes'']"

fun collect_updates :: "(string \<rightharpoonup> jvalue) \<Rightarrow> string list \<Rightarrow> json_object" where
  "collect_updates body [] = []"
| "collect_updates body (field # rest) =
     (case body field of
        None \<Rightarrow> collect_updates body rest
      | Some v \<Rightarrow> (field, v) # collect_updates body rest)"

text \<open>
  The document as it is serialised into a response (\<^verbatim>\<open>data: apiKey\<close>), up to two
  details: an absent optional path and a \<^verbatim>\<open>null\<close> one are both \<open>None\<close> here and are
  both printed as \<^verbatim>\<open>null\<close>, and the version key \<^verbatim>\<open>__v\<close> is left out.
\<close>

definition toJSON :: "api_key \<Rightarrow> jvalue" where
  "toJSON d =
     JObj ((''_id'', JNum (int (doc_id d))) #
           (case key d of None \<Rightarrow> [] | Some k \<Rightarrow> [(''key'', JStr k)]) @
           [(''name'', JStr (name d)),
            (''clientId'', JStr (clientId d)),
            (''isActive'', JBool (isActive d)),
            (''rateLimit'', JNum (rateLimit d)),
            (''usageCount'', JNum (usageCount d)),
            (''lastUsed'', jdate (lastUsed d)),
            (''createdAt'', JNum (createdAt d)),
            (''expiresAt'', jdate (expiresAt d)),
            (''allowedIPs'', JArr (map JStr (allowedIPs d))),
            (''contactEmail'', jstring (contactEmail d)),
            (''notes'', jstring (doc_notes d))])"

definition updateApiKey ::
  "bool \<Rightarrow> api_key list \<Rightarrow> string \<Rightarrow> (string \<rightharpoonup> jvalue) \<Rightarrow> outcome \<times> api_key list" where
  "updateApiKey update_throws store cid body =
     (let updates = collect_updates body allowedUpdates
      in case ApiKey_findOneAndUpdate update_throws True store (\<lambda>d. clientId d = cid) updates of
           Inl e \<Rightarrow>
             (Respond 500 [(''success'', JBool False),
                           (''error'', JStr ''Failed to update API key'')], store)
         | Inr (None, store') \<Rightarrow>
             (Respond 404 [(''success'', JBool False),
                           (''error'', JStr ''API key not found'')], store')
         | Inr (Some found, store') \<Rightarrow>
             (Respond 200 [(''success'', JBool True),
                           (''message'', JStr ''API key updated successfully''),
                           (''data'', toJSON (select_minus_key found))], store'))"

text \<open>
  \<^verbatim>\<open>deleteApiKey\<close>. \<^verbatim>\<open>hardDelete\<close> is the query-string parameter; the result of the
  collection call is not looked at.
\<close>

definition deleteApiKey ::
  "bool \<Rightarrow> api_key list \<Rightarrow> string \<Rightarrow> string option \<Rightarrow> outcome \<times> api_key list" where
  "deleteApiKey store_throws store cid hardDelete =
     (case (if hardDelete = Some ''true''
            then ApiKey_findOneAndDelete store_throws store (\<lambda>d. clientId d = cid)
            else ApiKey_findOneAndUpdate store_throws False store (\<lambda>d. clientId d = cid)
                   [(''isActive'', JBool False)]) of
        Inl e \<Rightarrow>
          (Respond 500 [(''success'', JBool False),
                        (''error'', JStr ''Failed to delete API key'')], store)
      | Inr (found, store') \<Rightarrow>
          (Respond 200 [(''success'', JBool True),
                        (''message'', JStr (if hardDelete = Some ''true''
                                            then ''API key deleted permanently''
                                            else ''API key deactivated''))], store'))"

text \<open>\<^verbatim>\<open>regenerateApiKey\<close>\<close>

definition regenerateApiKey ::
  "bool \<Rightarrow> bool \<Rightarrow> 8 word list \<Rightarrow> api_key list \<Rightarrow> string \<Rightarrow> outcome \<times> api_key list" where
  "regenerateApiKey find_throws save_throws randomBytes store cid =
     (case (case ApiKey_findOne find_throws store (\<lambda>d. clientId d = cid) of
              Inl e \<Rightarrow> Inl e
            | Inr None \<Rightarrow>
                Inr (Respond 404 [(''success'', JBool False),
                                  (''error'', JStr ''API key not found'')], store)
            | Inr (Some apiKey) \<Rightarrow>
                (let newKey = generateApiKey ''sk'' randomBytes;
                     apiKey' = apiKey\<lparr>key := Some newKey, usageCount := 0, lastUsed := None\<rparr>
                 in case ApiKey_save save_throws store apiKey apiKey' of
                      Inl e \<Rightarrow> Inl e
                    | Inr store' \<Rightarrow>
                        Inr (Respond 200
                               [(''success'', JBool True),
                                (''message'', JStr ''API key regenerated successfully''),
                                (''data'', JObj [(''apiKey'', JStr newKey),
                                                 (''clientId'', JStr (clientId apiKey')),
                                                 (''name'', JStr (name apiKey'))]),
                                (''warning'', JStr
                                   ''Save this API key securely. The old key is now invalid.'')],
                             store'))) of
        Inr r \<Rightarrow> r
      | Inl e \<Rightarrow>
          (Respond 500 [(''success'', JBool False),
                        (''error'', JStr ''Failed to regenerate API key'')], store))"


section \<open>Example data\<close>

definition acme :: api_key where
  "acme = \<lparr>doc_id = 1, key = Some ''sk_0f'', name = ''Acme'', clientId = ''acme_1'',
            isActive = True, rateLimit = 2, usageCount = 5, lastUsed = Some 500,
            createdAt = 100, expiresAt = None, allowedIPs = [], contactEmail = None,
            doc_notes = None\<rparr>"

definition acme_request :: request where
  "acme_request = \<lparr>x_api_key = Some ''sk_0f'', authorization = None, ip = Some ''9.9.9.9'',
                    remoteAddress = None, path = ''/profiles'', apiClient = None\<rparr>"

definition acme_client :: api_client where
  "acme_client = \<lparr>ac_clientId = ''acme_1'', ac_name = ''Acme'', ac_rateLimit = 2\<rparr>"

definition acme_body :: create_body where
  "acme_body = \<lparr>body_name = Some ''Acme'', body_clientId = Some ''acme_1'',
                 body_rateLimit = None, body_expiresInDays = None, body_allowedIPs = None,
                 body_contactEmail = None, body_notes = None\<rparr>"

definition some_bytes :: "8 word list" where
  "some_bytes = [0xA7, 0x3C]"

text \<open>The paths that \<^verbatim>\<open>updateApiKey\<close> must leave alone, as one tuple.\<close>

definition protected_fields ::
  "api_key \<Rightarrow> nat \<times> string option \<times> string \<times> int \<times> int \<times> int option" where
  "protected_fields d = (doc_id d, key d, clientId d, usageCount d, createdAt d, lastUsed d)"

text \<open>An update body that names protected paths next to an allowed one.\<close>

definition update_body :: "string \<rightharpoonup> jvalue" where
  "update_body = map_of [(''key'', JStr ''sk_ff''), (''clientId'', JStr ''other''),
                         (''usageCount'', JNum 0), (''createdAt'', JNum 0),
                         (''rateLimit'', JNum 7)]"

section \<open>Facts about the collection operations\<close>

lemma find_Some_mem: "find q xs = Some d \<Longrightarrow> d \<in> set xs \<and> q d"
  by (induction xs) (auto split: if_splits)

lemma find_append_Some: "find q xs = None \<Longrightarrow> q d \<Longrightarrow> find q (xs @ [d]) = Some d"
  by (induction xs) (auto split: if_splits)

lemma delete_first_no_match: "find q xs = None \<Longrightarrow> delete_first q xs = xs"
  by (induction xs) (auto split: if_splits)

lemma replace_first_map:
  "find q xs = Some d \<Longrightarrow> f d' = f d \<Longrightarrow> map f (replace_first q d' xs) = map f xs"
  by (induction xs) (auto split: if_splits)

lemma find_replace_first:
  "find q xs = Some d \<Longrightarrow> q d' \<Longrightarrow> find q (replace_first q d' xs) = Some d'"
  by (induction xs) (auto split: if_splits)

text \<open>With distinct \<^verbatim>\<open>_id\<close>s, writing a found document back by its id hits that document.\<close>

lemma replace_by_id:
  "find q xs = Some d \<Longrightarrow> distinct (map doc_id xs) \<Longrightarrow>
   replace_first (\<lambda>e. doc_id e = doc_id d) d' xs = replace_first q d' xs"
proof (induction xs)
  case Nil
  then show ?case by simp
next
  case (Cons e es)
  show ?case
  proof (cases "q e")
    case True
    then show ?thesis using Cons.prems by simp
  next
    case False
    then have f: "find q es = Some d" using Cons.prems by simp
    then have "d \<in> set es" by (simp add: find_Some_mem)
    then have "doc_id e \<noteq> doc_id d" using Cons.prems(2) by auto
    then show ?thesis using False f Cons by simp
  qed
qed

text \<open>With distinct keys, no other document carries the key of the replaced one.\<close>

lemma replace_first_others:
  "find q xs = Some d \<Longrightarrow> distinct (map key xs) \<Longrightarrow> e \<in> set (replace_first q d' xs) \<Longrightarrow>
   e = d' \<or> (e \<in> set xs \<and> key e \<noteq> key d)"
proof (induction xs)
  case Nil
  then show ?case by simp
next
  case (Cons x xs)
  show ?case
  proof (cases "q x")
    case True
    then have dx: "d = x" using Cons.prems(1) by simp
    have "e = d' \<or> e \<in> set xs" using True Cons.prems(3) by simp
    moreover have "key x \<notin> key ` set xs" using Cons.prems(2) by simp
    then have "\<And>y. y \<in> set xs \<Longrightarrow> key y \<noteq> key x" by (metis image_eqI)
    ultimately show ?thesis using dx by auto
  next
    case False
    then have f: "find q xs = Some d" using Cons.prems by simp
    then have "d \<in> set xs" by (simp add: find_Some_mem)
    moreover have "key x \<notin> key ` set xs" using Cons.prems(2) by simp
    ultimately have "key x \<noteq> key d" by (metis image_eqI)
    moreover have "distinct (map key xs)" using Cons.prems(2) by simp
    moreover have "e = x \<or> e \<in> set (replace_first q d' xs)" using False Cons.prems(3) by simp
    ultimately show ?thesis using f Cons.IH by auto
  qed
qed

section \<open>The quota enforcer\<close>

lemma rateLimit_decision:
  assumes "apiClient req = Some ac" "ac_clientId ac \<noteq> []" "path req \<noteq> []"
  shows "rateLimitByApiKey False False now ledger req =
      (if ac_rateLimit ac \<le> int (length (filter (\<lambda>e. ev_clientId e = ac_clientId ac \<and>
                                                     now - 3600000 \<le> timestamp e) ledger))
       then (Respond 429 [(''success'', JBool False), (''error'', JStr ''Rate limit exceeded''),
               (''code'', JStr ''RATE_LIMIT_EXCEEDED''), (''limit'', JNum (ac_rateLimit ac)),
               (''retryAfter'', JNum 3600)], ledger)
       else (Next, ledger @ [\<lparr>ev_clientId = ac_clientId ac, endpoint = path req,
                               timestamp = now\<rparr>]))"
  using assms
  by (simp add: rateLimitByApiKey_def rateLimitByApiKey_try_def RateLimit_countDocuments_def
      RateLimit_create_def)

lemma rateLimit_three_requests:
  assumes a: "apiClient r1 = Some ac" "apiClient r2 = Some ac" "apiClient r3 = Some ac"
    and p: "path r1 \<noteq> []" "path r2 \<noteq> []" "path r3 \<noteq> []"
    and c: "ac_clientId ac \<noteq> []" and l: "ac_rateLimit ac = 2"
    and e: "filter (\<lambda>e. ev_clientId e = ac_clientId ac \<and> t1 - 3600000 \<le> timestamp e) ledger = []"
    and t: "t1 \<le> t2" "t2 \<le> t3" "t3 - 3600000 \<le> t1"
  shows "(case rateLimitByApiKey False False t1 ledger r1 of (o1, l1) \<Rightarrow>
          case rateLimitByApiKey False False t2 l1 r2 of (o2, l2) \<Rightarrow>
          case rateLimitByApiKey False False t3 l2 r3 of (o3, l3) \<Rightarrow>
            o1 = Next \<and> o2 = Next \<and>
            o3 = Respond 429 [(''success'', JBool False), (''error'', JStr ''Rate limit exceeded''),
               (''code'', JStr ''RATE_LIMIT_EXCEEDED''), (''limit'', JNum 2),
               (''retryAfter'', JNum 3600)] \<and>
            l3 = l2 \<and>
            l2 = ledger @ [\<lparr>ev_clientId = ac_clientId ac, endpoint = path r1, timestamp = t1\<rparr>,
                           \<lparr>ev_clientId = ac_clientId ac, endpoint = path r2, timestamp = t2\<rparr>])"
proof -
  have z1: "filter (\<lambda>e. ev_clientId e = ac_clientId ac \<and> t1 - 3600000 \<le> timestamp e) ledger = []"
    and z2: "filter (\<lambda>e. ev_clientId e = ac_clientId ac \<and> t2 - 3600000 \<le> timestamp e) ledger = []"
    and z3: "filter (\<lambda>e. ev_clientId e = ac_clientId ac \<and> t3 - 3600000 \<le> timestamp e) ledger = []"
    using e t by (auto simp: filter_empty_conv)
  show ?thesis
    using a p c l t z1 z2 z3
    by (simp add: rateLimit_decision)
qed


text \<open>
  Claim C1. When the two ledger calls succeed, a request that carries an authenticated
  client is decided by the number of that client's events with a timestamp at or after
  \<open>now - 1 hour\<close>: at or above the client's limit the reply is 429
  \<^verbatim>\<open>RATE_LIMIT_EXCEEDED\<close> with the configured limit and \<^verbatim>\<open>retryAfter = 3600\<close> and
  the ledger is unchanged; below it exactly one event (client, request path, now) is
  appended and the request is passed on. With a limit of 2 and no earlier event in the
  window, three requests within one hour give: admitted, admitted, rejected.
\<close>

theorem quota_admission:
  assumes "apiClient r1 = Some ac" and "apiClient r2 = Some ac" and "apiClient r3 = Some ac"
    and "path r1 \<noteq> []" and "path r2 \<noteq> []" and "path r3 \<noteq> []"
    and "ac_clientId ac \<noteq> []"
  shows "rateLimitByApiKey False False now ledger r1 =
      (if ac_rateLimit ac \<le> int (length (filter (\<lambda>e. ev_clientId e = ac_clientId ac \<and>
                                                     now - 3600000 \<le> timestamp e) ledger))
       then (Respond 429 [(''success'', JBool False), (''error'', JStr ''Rate limit exceeded''),
               (''code'', JStr ''RATE_LIMIT_EXCEEDED''), (''limit'', JNum (ac_rateLimit ac)),
               (''retryAfter'', JNum 3600)], ledger)
       else (Next, ledger @ [\<lparr>ev_clientId = ac_clientId ac, endpoint = path r1,
                               timestamp = now\<rparr>]))
    \<and> (ac_rateLimit ac = 2 \<and>
       filter (\<lambda>e. ev_clientId e = ac_clientId ac \<and> t1 - 3600000 \<le> timestamp e) ledger = [] \<and>
       t1 \<le> t2 \<and> t2 \<le> t3 \<and> t3 - 3600000 \<le> t1 \<longrightarrow>
       (case rateLimitByApiKey False False t1 ledger r1 of (o1, l1) \<Rightarrow>
        case rateLimitByApiKey False False t2 l1 r2 of (o2, l2) \<Rightarrow>
        case rateLimitByApiKey False False t3 l2 r3 of (o3, l3) \<Rightarrow>
          o1 = Next \<and> o2 = Next \<and>
          o3 = Respond 429 [(''success'', JBool False), (''error'', JStr ''Rate limit exceeded''),
             (''code'', JStr ''RATE_LIMIT_EXCEEDED''), (''limit'', JNum 2),
             (''retryAfter'', JNum 3600)] \<and>
          l3 = l2 \<and>
          l2 = ledger @ [\<lparr>ev_clientId = ac_clientId ac, endpoint = path r1, timestamp = t1\<rparr>,
                         \<lparr>ev_clientId = ac_clientId ac, endpoint = path r2, timestamp = t2\<rparr>]))"
proof (intro conjI impI)
  show "rateLimitByApiKey False False now ledger r1 =
      (if ac_rateLimit ac \<le> int (length (filter (\<lambda>e. ev_clientId e = ac_clientId ac \<and>
                                                     now - 3600000 \<le> timestamp e) ledger))
       then (Respond 429 [(''success'', JBool False), (''error'', JStr ''Rate limit exceeded''),
               (''code'', JStr ''RATE_LIMIT_EXCEEDED''), (''limit'', JNum (ac_rateLimit ac)),
               (''retryAfter'', JNum 3600)], ledger)
       else (Next, ledger @ [\<lparr>ev_clientId = ac_clientId ac, endpoint = path r1,
                               timestamp = now\<rparr>]))"
    using assms(1,7,4) by (rule rateLimit_decision)
qed (rule rateLimit_three_requests [OF assms(1-7)]; simp)

theorem quota_admission_witness:
  "rateLimitByApiKey False False 5000 [] (acme_request\<lparr>apiClient := Some acme_client\<rparr>) =
     (Next, [\<lparr>ev_clientId = ''acme_1'', endpoint = ''/profiles'', timestamp = 5000\<rparr>])
   \<and> (case rateLimitByApiKey False False 1000 [] (acme_request\<lparr>apiClient := Some acme_client\<rparr>) of (o1, l1) \<Rightarrow>
      case rateLimitByApiKey False False 2000 l1 (acme_request\<lparr>apiClient := Some acme_client\<rparr>) of (o2, l2) \<Rightarrow>
      case rateLimitByApiKey False False 3000 l2 (acme_request\<lparr>apiClient := Some acme_client\<rparr>) of (o3, l3) \<Rightarrow>
        o1 = Next \<and> o2 = Next \<and>
        o3 = Respond 429 [(''success'', JBool False), (''error'', JStr ''Rate limit exceeded''),
             (''code'', JStr ''RATE_LIMIT_EXCEEDED''), (''limit'', JNum 2),
             (''retryAfter'', JNum 3600)] \<and> l3 = l2)"
  using quota_admission [of "acme_request\<lparr>apiClient := Some acme_client\<rparr>" acme_client
      "acme_request\<lparr>apiClient := Some acme_client\<rparr>" "acme_request\<lparr>apiClient := Some acme_client\<rparr>"
      5000 "[]" 1000 2000 3000]
  by (simp add: acme_request_def acme_client_def split: prod.splits)

section \<open>The authentication gate\<close>

lemma auth_missing_key:
  "extractApiKey req = None \<or> extractApiKey req = Some [] \<Longrightarrow>
   authenticateApiKey ft st now store req =
     (Respond 401 [(''success'', JBool False), (''error'', JStr ''API key is required''),
                   (''code'', JStr ''MISSING_API_KEY'')], req, store)"
  by (auto simp: authenticateApiKey_def authenticateApiKey_try_def auth_failure_def)

lemma auth_unknown_key:
  assumes "extractApiKey req = Some k" "k \<noteq> []" "find (\<lambda>d. key d = Some k) store = None"
  shows "authenticateApiKey False st now store req =
           (Respond 401 [(''success'', JBool False), (''error'', JStr ''Invalid API key''),
                         (''code'', JStr ''INVALID_API_KEY'')], req, store)"
  using assms
  by (simp add: authenticateApiKey_def authenticateApiKey_try_def ApiKey_findOne_def auth_failure_def)

lemma auth_disabled:
  assumes "extractApiKey req = Some k" "k \<noteq> []" "find (\<lambda>d. key d = Some k) store = Some keyDoc"
    "\<not> isActive keyDoc"
  shows "authenticateApiKey False st now store req =
           (Respond 403 [(''success'', JBool False), (''error'', JStr ''API key is disabled''),
                         (''code'', JStr ''DISABLED_API_KEY'')], req, store)"
  using assms
  by (simp add: authenticateApiKey_def authenticateApiKey_try_def ApiKey_findOne_def auth_failure_def)

lemma auth_expired:
  assumes "extractApiKey req = Some k" "k \<noteq> []" "find (\<lambda>d. key d = Some k) store = Some keyDoc"
    "isActive keyDoc" "expiresAt keyDoc = Some e" "e < now"
  shows "authenticateApiKey False st now store req =
           (Respond 403 [(''success'', JBool False), (''error'', JStr ''API key has expired''),
                         (''code'', JStr ''EXPIRED_API_KEY'')], req, store)"
  using assms
  by (simp add: authenticateApiKey_def authenticateApiKey_try_def ApiKey_findOne_def auth_failure_def)

lemma auth_ip_blocked:
  assumes "extractApiKey req = Some k" "k \<noteq> []" "find (\<lambda>d. key d = Some k) store = Some keyDoc"
    "isActive keyDoc" "\<forall>e. expiresAt keyDoc = Some e \<longrightarrow> now \<le> e"
    "allowedIPs keyDoc \<noteq> []" "\<forall>a. clientIP req = Some a \<longrightarrow> a \<notin> set (allowedIPs keyDoc)"
  shows "authenticateApiKey False st now store req =
           (Respond 403 [(''success'', JBool False), (''error'', JStr ''IP address not allowed''),
                         (''code'', JStr ''IP_NOT_ALLOWED'')], req, store)"
  using assms
  by (auto simp: authenticateApiKey_def authenticateApiKey_try_def ApiKey_findOne_def auth_failure_def
      split: option.splits)

text \<open>
  Claim C2. The checks run in the order: key present, lookup, \<^verbatim>\<open>isActive\<close>, expiry,
  IP; the first failing one fixes the reply. An inactive record gives 403
  \<^verbatim>\<open>DISABLED_API_KEY\<close> whatever its expiry and allowed addresses are, and an active,
  expired record gives \<^verbatim>\<open>EXPIRED_API_KEY\<close> whatever the requester address is.
\<close>

theorem authenticate_check_order:
  "(extractApiKey req = None \<or> extractApiKey req = Some [] \<longrightarrow>
      authenticateApiKey find_throws save_throws now store req =
        (Respond 401 [(''success'', JBool False), (''error'', JStr ''API key is required''),
                      (''code'', JStr ''MISSING_API_KEY'')], req, store))
 \<and> (extractApiKey req = Some k \<and> k \<noteq> [] \<longrightarrow>
     (find (\<lambda>d. key d = Some k) store = None \<longrightarrow>
        authenticateApiKey False save_throws now store req =
          (Respond 401 [(''success'', JBool False), (''error'', JStr ''Invalid API key''),
                        (''code'', JStr ''INVALID_API_KEY'')], req, store))
   \<and> (find (\<lambda>d. key d = Some k) store = Some keyDoc \<longrightarrow>
       (\<not> isActive keyDoc \<longrightarrow>
          authenticateApiKey False save_throws now store req =
            (Respond 403 [(''success'', JBool False), (''error'', JStr ''API key is disabled''),
                          (''code'', JStr ''DISABLED_API_KEY'')], req, store))
     \<and> (isActive keyDoc \<and> expiresAt keyDoc = Some e \<and> e < now \<longrightarrow>
          authenticateApiKey False save_throws now store req =
            (Respond 403 [(''success'', JBool False), (''error'', JStr ''API key has expired''),
                          (''code'', JStr ''EXPIRED_API_KEY'')], req, store))
     \<and> (isActive keyDoc \<and> (\<forall>e. expiresAt keyDoc = Some e \<longrightarrow> now \<le> e) \<and>
        allowedIPs keyDoc \<noteq> [] \<and> (\<forall>a. clientIP req = Some a \<longrightarrow> a \<notin> set (allowedIPs keyDoc)) \<longrightarrow>
          authenticateApiKey False save_throws now store req =
            (Respond 403 [(''success'', JBool False), (''error'', JStr ''IP address not allowed''),
                          (''code'', JStr ''IP_NOT_ALLOWED'')], req, store))))"
  using auth_missing_key [of req find_throws save_throws now store]
    auth_unknown_key [of req k store save_throws now]
    auth_disabled [of req k store keyDoc save_throws now]
    auth_expired [of req k store keyDoc e now save_throws]
    auth_ip_blocked [of req k store keyDoc now save_throws]
  by blast

theorem authenticate_check_order_witness:
  "authenticateApiKey False False 1000
      [acme\<lparr>isActive := False, expiresAt := Some 10, allowedIPs := [''1.2.3.4'']\<rparr>] acme_request =
     (Respond 403 [(''success'', JBool False), (''error'', JStr ''API key is disabled''),
                   (''code'', JStr ''DISABLED_API_KEY'')], acme_request,
      [acme\<lparr>isActive := False, expiresAt := Some 10, allowedIPs := [''1.2.3.4'']\<rparr>])
   \<and> authenticateApiKey False False 1000
      [acme\<lparr>expiresAt := Some 10, allowedIPs := [''1.2.3.4'']\<rparr>] acme_request =
     (Respond 403 [(''success'', JBool False), (''error'', JStr ''API key has expired''),
                   (''code'', JStr ''EXPIRED_API_KEY'')], acme_request,
      [acme\<lparr>expiresAt := Some 10, allowedIPs := [''1.2.3.4'']\<rparr>])
   \<and> authenticateApiKey False False 1000 [acme\<lparr>allowedIPs := [''1.2.3.4'']\<rparr>] acme_request =
     (Respond 403 [(''success'', JBool False), (''error'', JStr ''IP address not allowed''),
                   (''code'', JStr ''IP_NOT_ALLOWED'')], acme_request,
      [acme\<lparr>allowedIPs := [''1.2.3.4'']\<rparr>])"
  using authenticate_check_order [of acme_request False False 1000
      "[acme\<lparr>isActive := False, expiresAt := Some 10, allowedIPs := [''1.2.3.4'']\<rparr>]" "''sk_0f''"
      "acme\<lparr>isActive := False, expiresAt := Some 10, allowedIPs := [''1.2.3.4'']\<rparr>" 10]
    authenticate_check_order [of acme_request False False 1000
      "[acme\<lparr>expiresAt := Some 10, allowedIPs := [''1.2.3.4'']\<rparr>]" "''sk_0f''"
      "acme\<lparr>expiresAt := Some 10, allowedIPs := [''1.2.3.4'']\<rparr>" 10]
    authenticate_check_order [of acme_request False False 1000
      "[acme\<lparr>allowedIPs := [''1.2.3.4'']\<rparr>]" "''sk_0f''"
      "acme\<lparr>allowedIPs := [''1.2.3.4'']\<rparr>" 10]
  by (simp add: acme_def acme_request_def extractApiKey_def clientIP_def)

text \<open>
  Claim C3, as amended. The usage counter is written only after every standing check has
  passed, inside the same \<^verbatim>\<open>try\<close> block as the checks. When that write fails, the
  \<^verbatim>\<open>catch\<close> answers 500 \<^verbatim>\<open>AUTH_ERROR\<close>, the identity is not attached and the
  request is not passed on; when it succeeds, the request proceeds with the identity
  \<open>{clientId, name, rateLimit}\<close> of the record.
\<close>

theorem persist_failure_rejects:
  assumes "extractApiKey req = Some k" and "k \<noteq> []"
    and "find (\<lambda>d. key d = Some k) store = Some keyDoc"
    and "isActive keyDoc"
    and "\<forall>e. expiresAt keyDoc = Some e \<longrightarrow> now \<le> e"
    and "allowedIPs keyDoc = [] \<or> (\<exists>a. clientIP req = Some a \<and> a \<in> set (allowedIPs keyDoc))"
  shows "authenticateApiKey False True now store req =
           (Respond 500 [(''success'', JBool False), (''error'', JStr ''Authentication failed''),
                         (''code'', JStr ''AUTH_ERROR'')], req, store)
       \<and> (required_ok keyDoc \<longrightarrow>
            authenticateApiKey False False now store req =
              (Next,
               req\<lparr>apiClient := Some \<lparr>ac_clientId = clientId keyDoc, ac_name = name keyDoc,
                                      ac_rateLimit = rateLimit keyDoc\<rparr>\<rparr>,
               replace_doc (keyDoc\<lparr>usageCount := usageCount keyDoc + 1, lastUsed := Some now\<rparr>)
                 store))"
  using assms
  by (auto simp: authenticateApiKey_def authenticateApiKey_try_def ApiKey_findOne_def auth_failure_def
      ApiKey_save_def required_ok_def index_violation_def split: option.splits)

theorem persist_failure_rejects_witness:
  "authenticateApiKey False True 1000 [acme] acme_request =
     (Respond 500 [(''success'', JBool False), (''error'', JStr ''Authentication failed''),
                   (''code'', JStr ''AUTH_ERROR'')], acme_request, [acme])
   \<and> authenticateApiKey False False 1000 [acme] acme_request =
     (Next, acme_request\<lparr>apiClient := Some acme_client\<rparr>,
      [acme\<lparr>usageCount := 6, lastUsed := Some 1000\<rparr>])"
  using persist_failure_rejects [of acme_request "''sk_0f''" "[acme]" acme 1000]
  by (simp add: acme_def acme_request_def acme_client_def extractApiKey_def required_ok_def
      index_violation_def replace_doc_def)

text \<open>
  The claim as stated fails: the request below passes every standing check (with a working
  store it is passed on), and with a failing write it is answered with 500.
\<close>

theorem persist_failure_counterexample:
  "fst (authenticateApiKey False False 1000 [acme] acme_request) = Next
   \<and> fst (authenticateApiKey False True 1000 [acme] acme_request) \<noteq> Next
   \<and> authenticateApiKey False True 1000 [acme] acme_request =
       (Respond 500 [(''success'', JBool False), (''error'', JStr ''Authentication failed''),
                     (''code'', JStr ''AUTH_ERROR'')], acme_request, [acme])"
  by (simp add: authenticateApiKey_def authenticateApiKey_try_def ApiKey_findOne_def
      ApiKey_save_def auth_failure_def acme_def acme_request_def extractApiKey_def required_ok_def
      index_violation_def replace_doc_def)

section \<open>Fail-open quota enforcement\<close>

text \<open>
  Claim C4. When counting throws, or when appending throws after a count below the
  limit, the request is passed on and the ledger is unchanged. Whatever the ledger does, the
  only reply the quota step can send is a 429, and only after a count that succeeded.
\<close>

theorem rateLimit_fail_open:
  "(count_throws \<longrightarrow>
      rateLimitByApiKey count_throws create_throws now ledger req = (Next, ledger))
 \<and> (create_throws \<and> apiClient req = Some ac \<and>
      int (length (filter (\<lambda>e. ev_clientId e = ac_clientId ac \<and> now - 3600000 \<le> timestamp e)
                     ledger)) < ac_rateLimit ac \<longrightarrow>
      rateLimitByApiKey count_throws create_throws now ledger req = (Next, ledger))
 \<and> (\<forall>st js. fst (rateLimitByApiKey count_throws create_throws now ledger req) = Respond st js \<longrightarrow>
       st = 429 \<and> \<not> count_throws)"
  by (auto simp: rateLimitByApiKey_def rateLimitByApiKey_try_def RateLimit_countDocuments_def
      RateLimit_create_def Let_def split: option.splits if_splits)

theorem rateLimit_fail_open_witness:
  "rateLimitByApiKey True False 1000 [] (acme_request\<lparr>apiClient := Some acme_client\<rparr>) = (Next, [])
   \<and> rateLimitByApiKey False True 1000 [] (acme_request\<lparr>apiClient := Some acme_client\<rparr>) = (Next, [])"
  using rateLimit_fail_open [of True False 1000 "[]" "acme_request\<lparr>apiClient := Some acme_client\<rparr>" acme_client]
    rateLimit_fail_open [of False True 1000 "[]" "acme_request\<lparr>apiClient := Some acme_client\<rparr>" acme_client]
  by (simp add: acme_request_def acme_client_def)

section \<open>Creating keys\<close>

lemma create_success:
  assumes "createApiKey ft ct now rnd store body = (Respond 201 js, store')"
  shows "\<exists>nm cid. body_name body = Some nm \<and> body_clientId body = Some cid \<and> cid \<noteq> [] \<and>
           find (\<lambda>d. clientId d = cid) store = None \<and>
           store' = store @
             [\<lparr>doc_id = fresh_id store, key = Some (generateApiKey ''sk'' rnd), name = trim nm,
               clientId = cid, isActive = True,
               rateLimit = (case body_rateLimit body of None \<Rightarrow> 100 | Some r \<Rightarrow> r),
               usageCount = 0, lastUsed = None, createdAt = now,
               expiresAt = (case body_expiresInDays body of None \<Rightarrow> None
                            | Some n \<Rightarrow> if n = 0 then None
                                        else Some (now + n * 24 * 60 * 60 * 1000)),
               allowedIPs = (case body_allowedIPs body of None \<Rightarrow> [] | Some l \<Rightarrow> l),
               contactEmail = body_contactEmail body, doc_notes = body_notes body\<rparr>]"
  using assms
  by (auto simp: createApiKey_def createApiKey_try_def ApiKey_findOne_def ApiKey_create_def Let_def
      split: option.splits if_splits sum.splits prod.splits)

lemma create_duplicate:
  assumes "find (\<lambda>d. clientId d = cid) store \<noteq> None" "body_clientId body = Some cid"
    "body_name body = Some nm" "nm \<noteq> []" "cid \<noteq> []"
  shows "createApiKey False ct now rnd store body =
     (Respond 400 [(''success'', JBool False), (''error'', JStr ''Client ID already exists'')],
      store)"
  using assms
  by (auto simp: createApiKey_def createApiKey_try_def ApiKey_findOne_def Let_def)

lemma create_acme_first:
  "createApiKey False False 1000 some_bytes [] acme_body =
     (Respond 201
        [(''success'', JBool True), (''message'', JStr ''API key created successfully''),
         (''data'', JObj [(''apiKey'', JStr ''sk_a73c''), (''clientId'', JStr ''acme_1''),
                          (''name'', JStr ''Acme''), (''rateLimit'', JNum 100),
                          (''expiresAt'', JNull), (''createdAt'', JNum 1000)]),
         (''warning'', JStr ''Save this API key securely. It will not be shown again.'')],
      [\<lparr>doc_id = 1, key = Some ''sk_a73c'', name = ''Acme'', clientId = ''acme_1'',
        isActive = True, rateLimit = 100, usageCount = 0, lastUsed = None, createdAt = 1000,
        expiresAt = None, allowedIPs = [], contactEmail = None, doc_notes = None\<rparr>])"
  by (simp add: createApiKey_def createApiKey_try_def ApiKey_findOne_def ApiKey_create_def
      acme_body_def some_bytes_def generateApiKey_def hex_of_byte_def hex_digit_def
      required_ok_def unique_ok_def fresh_id_def trim_def is_space_def jdate_def Let_def)

text \<open>
  Claim C6. After a successful \<^verbatim>\<open>createApiKey\<close>, a second call with the same
  \<^verbatim>\<open>clientId\<close> (and a name) is answered with 400 \<^verbatim>\<open>Client ID already exists\<close>
  and leaves the collection as the first call left it: the old documents and the one new
  record.
\<close>

theorem create_twice_duplicate:
  assumes first: "createApiKey find_throws create_throws now randomBytes store body =
                    (Respond 201 js, store')"
    and same: "body_clientId body2 = body_clientId body"
    and nm: "body_name body2 = Some name2" "name2 \<noteq> []"
  shows "createApiKey False create_throws2 now2 randomBytes2 store' body2 =
           (Respond 400 [(''success'', JBool False),
                         (''error'', JStr ''Client ID already exists'')], store')
         \<and> (\<exists>d. store' = store @ [d] \<and> body_clientId body = Some (clientId d))"
proof -
  from create_success [OF first] obtain nm cid d where
    b: "body_clientId body = Some cid" and ne: "cid \<noteq> []"
    and n: "find (\<lambda>d. clientId d = cid) store = None"
    and s: "store' = store @ [d]" and c: "clientId d = cid"
    by auto
  have "find (\<lambda>d. clientId d = cid) store' = Some d"
    using n s c by (simp add: find_append_Some)
  then have "find (\<lambda>d. clientId d = cid) store' \<noteq> None" by simp
  moreover have "body_clientId body2 = Some cid" using same b by simp
  ultimately have "createApiKey False create_throws2 now2 randomBytes2 store' body2 =
     (Respond 400 [(''success'', JBool False), (''error'', JStr ''Client ID already exists'')],
      store')"
    using nm ne by (rule create_duplicate)
  then show ?thesis using s c b by auto
qed

theorem create_twice_duplicate_witness:
  "createApiKey False False 2000 [0x11, 0x22]
     [\<lparr>doc_id = 1, key = Some ''sk_a73c'', name = ''Acme'', clientId = ''acme_1'',
       isActive = True, rateLimit = 100, usageCount = 0, lastUsed = None, createdAt = 1000,
       expiresAt = None, allowedIPs = [], contactEmail = None, doc_notes = None\<rparr>] acme_body =
     (Respond 400 [(''success'', JBool False), (''error'', JStr ''Client ID already exists'')],
      [\<lparr>doc_id = 1, key = Some ''sk_a73c'', name = ''Acme'', clientId = ''acme_1'',
        isActive = True, rateLimit = 100, usageCount = 0, lastUsed = None, createdAt = 1000,
        expiresAt = None, allowedIPs = [], contactEmail = None, doc_notes = None\<rparr>])"
  using create_twice_duplicate [OF create_acme_first, of acme_body "''Acme''" False 2000 "[0x11, 0x22]"]
  by (simp add: acme_body_def)

lemma generateApiKey_nonempty: "generateApiKey ''sk'' randomBytes \<noteq> []"
  by (simp add: generateApiKey_def)

lemma create_stores_rateLimit:
  assumes nm: "body_name body = Some nm" "trim nm \<noteq> []"
    and cid: "body_clientId body = Some cid" "cid \<noteq> []"
    and new: "find (\<lambda>d. clientId d = cid) store = None"
    and unused: "\<forall>e\<in>set store. key e \<noteq> Some (generateApiKey ''sk'' randomBytes)"
    and ex: "body_expiresInDays body = None"
    and rl: "body_rateLimit body = Some r"
  shows "\<exists>js d. createApiKey False False t randomBytes store body = (Respond 201 js, store @ [d])
               \<and> clientId d = cid \<and> rateLimit d = r"
proof -
  have n0: "nm \<noteq> []" using nm(2) by (auto simp: trim_def)
  have c: "\<forall>e\<in>set store. clientId e \<noteq> cid" using new by (simp add: find_None_iff)
  let ?d = "\<lparr>doc_id = fresh_id store, key = Some (generateApiKey ''sk'' randomBytes),
             name = trim nm, clientId = cid, isActive = True, rateLimit = r, usageCount = 0,
             lastUsed = None, createdAt = t, expiresAt = None,
             allowedIPs = (case body_allowedIPs body of None \<Rightarrow> [] | Some l \<Rightarrow> l),
             contactEmail = body_contactEmail body, doc_notes = body_notes body\<rparr>"
  have u: "unique_ok store ?d" using unused c by (auto simp: unique_ok_def list_ex_iff)
  have q: "required_ok ?d" using nm(2) cid(2) by (simp add: required_ok_def generateApiKey_nonempty)
  show ?thesis
    using nm(1) n0 cid new ex rl u q
    by (simp add: createApiKey_def createApiKey_try_def ApiKey_findOne_def ApiKey_create_def Let_def)
qed

text \<open>
  Claim C9, as amended. Nothing checks the sign of \<^verbatim>\<open>rateLimit\<close>:
  \<^verbatim>\<open>createApiKey\<close> stores the limit of the body as it is, zero and negative values
  included. For a client whose limit is zero or negative, every quota check whose count
  succeeds is answered with 429 \<^verbatim>\<open>RATE_LIMIT_EXCEEDED\<close>, at any time and for any
  ledger; when the count throws, the \<^verbatim>\<open>catch\<close> passes the request on, so such a
  client is admitted exactly while the ledger fails.
\<close>

theorem nonpositive_rateLimit_rejects:
  "(body_name body = Some nm \<and> trim nm \<noteq> [] \<and> body_clientId body = Some cid \<and> cid \<noteq> [] \<and>
    find (\<lambda>d. clientId d = cid) store = None \<and>
    (\<forall>e\<in>set store. key e \<noteq> Some (generateApiKey ''sk'' randomBytes)) \<and>
    body_expiresInDays body = None \<and> body_rateLimit body = Some r \<longrightarrow>
      (\<exists>js d. createApiKey False False t randomBytes store body = (Respond 201 js, store @ [d])
              \<and> clientId d = cid \<and> rateLimit d = r))
 \<and> (apiClient req = Some ac \<and> ac_rateLimit ac \<le> 0 \<longrightarrow>
      rateLimitByApiKey count_throws create_throws now ledger req =
        (if count_throws then (Next, ledger)
         else (Respond 429 [(''success'', JBool False), (''error'', JStr ''Rate limit exceeded''),
                 (''code'', JStr ''RATE_LIMIT_EXCEEDED''), (''limit'', JNum (ac_rateLimit ac)),
                 (''retryAfter'', JNum 3600)], ledger)))"
proof (intro conjI impI)
  assume h: "body_name body = Some nm \<and> trim nm \<noteq> [] \<and> body_clientId body = Some cid \<and> cid \<noteq> [] \<and>
    find (\<lambda>d. clientId d = cid) store = None \<and>
    (\<forall>e\<in>set store. key e \<noteq> Some (generateApiKey ''sk'' randomBytes)) \<and>
    body_expiresInDays body = None \<and> body_rateLimit body = Some r"
  show "\<exists>js d. createApiKey False False t randomBytes store body = (Respond 201 js, store @ [d])
              \<and> clientId d = cid \<and> rateLimit d = r"
    by (rule create_stores_rateLimit [where nm = nm and cid = cid]) (use h in blast)+
next
  assume "apiClient req = Some ac \<and> ac_rateLimit ac \<le> 0"
  then show "rateLimitByApiKey count_throws create_throws now ledger req =
        (if count_throws then (Next, ledger)
         else (Respond 429 [(''success'', JBool False), (''error'', JStr ''Rate limit exceeded''),
                 (''code'', JStr ''RATE_LIMIT_EXCEEDED''), (''limit'', JNum (ac_rateLimit ac)),
                 (''retryAfter'', JNum 3600)], ledger))"
    by (simp add: rateLimitByApiKey_def rateLimitByApiKey_try_def RateLimit_countDocuments_def)
qed

theorem nonpositive_rateLimit_rejects_witness:
  "(\<exists>js d. createApiKey False False 1000 some_bytes [] (acme_body\<lparr>body_rateLimit := Some 0\<rparr>) =
             (Respond 201 js, [d]) \<and> clientId d = ''acme_1'' \<and> rateLimit d = 0)
   \<and> rateLimitByApiKey False False 1000 []
        (acme_request\<lparr>apiClient := Some (acme_client\<lparr>ac_rateLimit := 0\<rparr>)\<rparr>) =
        (Respond 429 [(''success'', JBool False), (''error'', JStr ''Rate limit exceeded''),
            (''code'', JStr ''RATE_LIMIT_EXCEEDED''), (''limit'', JNum 0),
            (''retryAfter'', JNum 3600)], [])
   \<and> rateLimitByApiKey True False 1000 []
        (acme_request\<lparr>apiClient := Some (acme_client\<lparr>ac_rateLimit := 0\<rparr>)\<rparr>) = (Next, [])"
  using nonpositive_rateLimit_rejects [of "acme_body\<lparr>body_rateLimit := Some 0\<rparr>" "''Acme''"
      "''acme_1''" "[]" some_bytes 0 1000
      "acme_request\<lparr>apiClient := Some (acme_client\<lparr>ac_rateLimit := 0\<rparr>)\<rparr>"
      "acme_client\<lparr>ac_rateLimit := 0\<rparr>" False False 1000 "[]"]
    nonpositive_rateLimit_rejects [of "acme_body\<lparr>body_rateLimit := Some 0\<rparr>" "''Acme''"
      "''acme_1''" "[]" some_bytes 0 1000
      "acme_request\<lparr>apiClient := Some (acme_client\<lparr>ac_rateLimit := 0\<rparr>)\<rparr>"
      "acme_client\<lparr>ac_rateLimit := 0\<rparr>" True False 1000 "[]"]
  by (simp add: acme_body_def acme_request_def acme_client_def trim_def is_space_def)

text \<open>
  The claim as stated fails: a client with limit 0 is passed on when counting throws.
\<close>

theorem nonpositive_rateLimit_counterexample:
  "ac_rateLimit (acme_client\<lparr>ac_rateLimit := 0\<rparr>) \<le> 0
   \<and> rateLimitByApiKey True False 1000 []
        (acme_request\<lparr>apiClient := Some (acme_client\<lparr>ac_rateLimit := 0\<rparr>)\<rparr>) = (Next, [])"
  by (simp add: rateLimitByApiKey_def rateLimitByApiKey_try_def RateLimit_countDocuments_def
      acme_request_def acme_client_def)

section \<open>Regenerating a key\<close>

lemma regenerate_performs:
  assumes old: "find (\<lambda>d. clientId d = cid) store = Some old"
    and req: "required_ok old"
    and unused: "\<forall>e\<in>set store. key e \<noteq> Some (generateApiKey ''sk'' randomBytes)"
  shows "regenerateApiKey False False randomBytes store cid =
           (Respond 200
              [(''success'', JBool True), (''message'', JStr ''API key regenerated successfully''),
               (''data'', JObj [(''apiKey'', JStr (generateApiKey ''sk'' randomBytes)),
                                (''clientId'', JStr (clientId old)),
                                (''name'', JStr (name old))]),
               (''warning'', JStr ''Save this API key securely. The old key is now invalid.'')],
            replace_doc (old\<lparr>key := Some (generateApiKey ''sk'' randomBytes), usageCount := 0,
                              lastUsed := None\<rparr>) store)"
proof -
  let ?new = "old\<lparr>key := Some (generateApiKey ''sk'' randomBytes), usageCount := 0,
                   lastUsed := None\<rparr>"
  have r: "required_ok ?new"
    using req by (simp add: required_ok_def generateApiKey_nonempty)
  have "\<not> list_ex (\<lambda>e. doc_id e \<noteq> doc_id ?new \<and> key e = key ?new) store"
    using unused by (auto simp: list_ex_iff)
  then have i: "\<not> index_violation store old ?new"
    by (simp add: index_violation_def)
  show ?thesis
    using old r i
    by (simp add: regenerateApiKey_def ApiKey_findOne_def ApiKey_save_def Let_def)
qed

text \<open>
  Claim C7. In a collection with distinct ids and keys, \<^verbatim>\<open>regenerateApiKey\<close> on an
  existing, valid record, drawing a key that no stored record carries, answers 200 with the
  new key and writes it to the record together with \<^verbatim>\<open>usageCount = 0\<close> and no
  \<^verbatim>\<open>lastUsed\<close>; the other records are untouched, and from then on every request that
  presents the old key is answered with 401 \<^verbatim>\<open>INVALID_API_KEY\<close>.
\<close>

theorem regenerate_invalidates_old_key:
  assumes ids: "distinct (map doc_id store)" and keys: "distinct (map key store)"
    and old: "find (\<lambda>d. clientId d = cid) store = Some old"
    and ok: "key old = Some oldKey" and ne: "oldKey \<noteq> []"
    and req: "required_ok old"
    and unused: "\<forall>e\<in>set store. key e \<noteq> Some (generateApiKey ''sk'' randomBytes)"
  shows "\<exists>store'.
           regenerateApiKey False False randomBytes store cid =
             (Respond 200
                [(''success'', JBool True),
                 (''message'', JStr ''API key regenerated successfully''),
                 (''data'', JObj [(''apiKey'', JStr (generateApiKey ''sk'' randomBytes)),
                                  (''clientId'', JStr (clientId old)),
                                  (''name'', JStr (name old))]),
                 (''warning'', JStr ''Save this API key securely. The old key is now invalid.'')],
              store')
         \<and> store' = replace_first (\<lambda>d. clientId d = cid)
                       (old\<lparr>key := Some (generateApiKey ''sk'' randomBytes), usageCount := 0,
                             lastUsed := None\<rparr>) store
         \<and> find (\<lambda>d. clientId d = cid) store' =
             Some (old\<lparr>key := Some (generateApiKey ''sk'' randomBytes), usageCount := 0,
                        lastUsed := None\<rparr>)
         \<and> (\<forall>req now save_throws. extractApiKey req = Some oldKey \<longrightarrow>
               authenticateApiKey False save_throws now store' req =
                 (Respond 401 [(''success'', JBool False), (''error'', JStr ''Invalid API key''),
                               (''code'', JStr ''INVALID_API_KEY'')], req, store'))"
proof -
  let ?new = "old\<lparr>key := Some (generateApiKey ''sk'' randomBytes), usageCount := 0,
                   lastUsed := None\<rparr>"
  let ?store' = "replace_first (\<lambda>d. clientId d = cid) ?new store"
  have s: "replace_doc ?new store = ?store'"
    using replace_by_id [OF old ids, of ?new] by (simp add: replace_doc_def)
  have run: "regenerateApiKey False False randomBytes store cid =
           (Respond 200
              [(''success'', JBool True), (''message'', JStr ''API key regenerated successfully''),
               (''data'', JObj [(''apiKey'', JStr (generateApiKey ''sk'' randomBytes)),
                                (''clientId'', JStr (clientId old)),
                                (''name'', JStr (name old))]),
               (''warning'', JStr ''Save this API key securely. The old key is now invalid.'')],
            ?store')"
    using regenerate_performs [OF old req unused] by (simp only: s)
  have mem: "old \<in> set store" and q0: "clientId old = cid"
    using find_Some_mem [OF old] by simp_all
  have fresh: "generateApiKey ''sk'' randomBytes \<noteq> oldKey"
    using unused mem ok by auto
  have q: "clientId ?new = cid" using q0 by simp
  have a: "find (\<lambda>d. clientId d = cid) ?store' = Some ?new"
    using old q by (rule find_replace_first)
  have "key e \<noteq> Some oldKey" if "e \<in> set ?store'" for e
  proof -
    have "e = ?new \<or> (e \<in> set store \<and> key e \<noteq> key old)"
      using old keys that by (rule replace_first_others)
    then show ?thesis using fresh ok by auto
  qed
  then have n: "find (\<lambda>d. key d = Some oldKey) ?store' = None"
    by (auto simp: find_None_iff)
  have au: "\<forall>req now save_throws. extractApiKey req = Some oldKey \<longrightarrow>
               authenticateApiKey False save_throws now ?store' req =
                 (Respond 401 [(''success'', JBool False), (''error'', JStr ''Invalid API key''),
                               (''code'', JStr ''INVALID_API_KEY'')], req, ?store')"
    using auth_unknown_key [OF _ ne n] by blast
  show ?thesis using run a au by blast
qed

theorem regenerate_invalidates_old_key_witness:
  "regenerateApiKey False False some_bytes [acme] ''acme_1'' =
     (Respond 200
        [(''success'', JBool True), (''message'', JStr ''API key regenerated successfully''),
         (''data'', JObj [(''apiKey'', JStr ''sk_a73c''), (''clientId'', JStr ''acme_1''),
                          (''name'', JStr ''Acme'')]),
         (''warning'', JStr ''Save this API key securely. The old key is now invalid.'')],
      [acme\<lparr>key := Some ''sk_a73c'', usageCount := 0, lastUsed := None\<rparr>])
   \<and> authenticateApiKey False False 2000
        (snd (regenerateApiKey False False some_bytes [acme] ''acme_1'')) acme_request =
       (Respond 401 [(''success'', JBool False), (''error'', JStr ''Invalid API key''),
                     (''code'', JStr ''INVALID_API_KEY'')], acme_request,
        [acme\<lparr>key := Some ''sk_a73c'', usageCount := 0, lastUsed := None\<rparr>])
   \<and> fst (authenticateApiKey False False 2000 [acme] acme_request) = Next"
proof -
  have g: "generateApiKey ''sk'' some_bytes = ''sk_a73c''"
    by (simp add: generateApiKey_def some_bytes_def hex_of_byte_def hex_digit_def)
  have h: "distinct (map doc_id [acme])" "distinct (map key [acme])"
    "find (\<lambda>d. clientId d = ''acme_1'') [acme] = Some acme"
    "key acme = Some ''sk_0f''" "''sk_0f'' \<noteq> []" "required_ok acme"
    "\<forall>e\<in>set [acme]. key e \<noteq> Some (generateApiKey ''sk'' some_bytes)"
    by (simp_all add: acme_def g required_ok_def)
  have b: "fst (authenticateApiKey False False 2000 [acme] acme_request) = Next"
    by (simp add: authenticateApiKey_def authenticateApiKey_try_def ApiKey_findOne_def
        ApiKey_save_def acme_def acme_request_def extractApiKey_def required_ok_def
        index_violation_def replace_doc_def)
  have e: "extractApiKey acme_request = Some ''sk_0f''"
    by (simp add: acme_request_def extractApiKey_def)
  from regenerate_invalidates_old_key [OF h]
  obtain store' where
    r: "regenerateApiKey False False some_bytes [acme] ''acme_1'' =
         (Respond 200
            [(''success'', JBool True), (''message'', JStr ''API key regenerated successfully''),
             (''data'', JObj [(''apiKey'', JStr (generateApiKey ''sk'' some_bytes)),
                              (''clientId'', JStr (clientId acme)), (''name'', JStr (name acme))]),
             (''warning'', JStr ''Save this API key securely. The old key is now invalid.'')],
          store')"
    and s: "store' = replace_first (\<lambda>d. clientId d = ''acme_1'')
                       (acme\<lparr>key := Some (generateApiKey ''sk'' some_bytes), usageCount := 0,
                              lastUsed := None\<rparr>) [acme]"
    and a: "\<forall>req now save_throws. extractApiKey req = Some ''sk_0f'' \<longrightarrow>
               authenticateApiKey False save_throws now store' req =
                 (Respond 401 [(''success'', JBool False), (''error'', JStr ''Invalid API key''),
                               (''code'', JStr ''INVALID_API_KEY'')], req, store')"
    by blast
  have s': "store' = [acme\<lparr>key := Some ''sk_a73c'', usageCount := 0, lastUsed := None\<rparr>]"
    using s by (simp add: g acme_def)
  have n: "name acme = ''Acme''" "clientId acme = ''acme_1''" by (simp_all add: acme_def)
  show ?thesis
    using r a e b by (simp add: s' g n)
qed

section \<open>Updating a key\<close>

lemma collect_updates_cong:
  "(\<And>f. f \<in> set fs \<Longrightarrow> body' f = body f) \<Longrightarrow>
   collect_updates body' fs = collect_updates body fs"
  by (induction fs) (auto split: option.splits)

lemma collect_updates_fields:
  "(f, v) \<in> set (collect_updates body fs) \<Longrightarrow> f \<in> set fs"
  by (induction fs) (auto split: option.splits)

lemma set_path_protected:
  "f \<in> set allowedUpdates \<Longrightarrow> set_path rv f v d = Inr d' \<Longrightarrow>
   protected_fields d' = protected_fields d"
  by (auto simp: set_path_def allowedUpdates_def protected_fields_def
      split: jvalue.splits if_splits option.splits)

lemma set_paths_protected:
  "(\<And>f v. (f, v) \<in> set us \<Longrightarrow> f \<in> set allowedUpdates) \<Longrightarrow>
   set_paths rv us d = Inr d' \<Longrightarrow> protected_fields d' = protected_fields d"
proof (induction us arbitrary: d)
  case Nil
  then show ?case by simp
next
  case (Cons u us)
  obtain f v where u: "u = (f, v)" by (cases u)
  from Cons.prems(2) u obtain d1 where s1: "set_path rv f v d = Inr d1"
    and s2: "set_paths rv us d1 = Inr d'"
    by (auto split: sum.splits)
  have "f \<in> set allowedUpdates" using Cons.prems(1) u by auto
  then have "protected_fields d1 = protected_fields d" using s1 by (rule set_path_protected)
  moreover have "protected_fields d' = protected_fields d1" using Cons.IH Cons.prems(1) s2 by auto
  ultimately show ?case by simp
qed

lemma update_protected:
  "map protected_fields (snd (updateApiKey thr store cid body)) = map protected_fields store"
proof (cases "ApiKey_findOneAndUpdate thr True store (\<lambda>d. clientId d = cid)
                (collect_updates body allowedUpdates)")
  case (Inl e)
  then show ?thesis by (simp add: updateApiKey_def)
next
  case (Inr r)
  obtain found store' where r: "r = (found, store')" by (cases r)
  have "map protected_fields store' = map protected_fields store"
  proof (cases "find (\<lambda>d. clientId d = cid) store")
    case None
    then show ?thesis using Inr r by (auto simp: ApiKey_findOneAndUpdate_def split: if_splits)
  next
    case (Some d)
    then obtain d' where sp: "set_paths True (collect_updates body allowedUpdates) d = Inr d'"
      and st: "store' = replace_first (\<lambda>d. clientId d = cid) d' store"
      using Inr r by (auto simp: ApiKey_findOneAndUpdate_def split: if_splits sum.splits)
    have "protected_fields d' = protected_fields d"
      using collect_updates_fields sp by (rule set_paths_protected)
    then show ?thesis using st Some by (simp add: replace_first_map)
  qed
  then show ?thesis using Inr r by (cases found) (simp_all add: updateApiKey_def)
qed

text \<open>
  Claim C8. \<^verbatim>\<open>updateApiKey\<close> answers and writes exactly as it does for the body cut
  down to the allow-list, so any other field is ignored without an error; and no update
  changes \<^verbatim>\<open>key\<close>, \<^verbatim>\<open>clientId\<close>, \<^verbatim>\<open>usageCount\<close>, \<^verbatim>\<open>createdAt\<close>,
  \<^verbatim>\<open>lastUsed\<close> or \<^verbatim>\<open>_id\<close> of any stored record.
\<close>

theorem update_allow_list:
  "updateApiKey update_throws store cid body =
     updateApiKey update_throws store cid (\<lambda>f. if f \<in> set allowedUpdates then body f else None)
   \<and> map key (snd (updateApiKey update_throws store cid body)) = map key store
   \<and> map clientId (snd (updateApiKey update_throws store cid body)) = map clientId store
   \<and> map usageCount (snd (updateApiKey update_throws store cid body)) = map usageCount store
   \<and> map createdAt (snd (updateApiKey update_throws store cid body)) = map createdAt store
   \<and> map lastUsed (snd (updateApiKey update_throws store cid body)) = map lastUsed store
   \<and> map doc_id (snd (updateApiKey update_throws store cid body)) = map doc_id store"
proof -
  have "collect_updates (\<lambda>f. if f \<in> set allowedUpdates then body f else None) allowedUpdates
        = collect_updates body allowedUpdates"
    by (rule collect_updates_cong) simp
  then have a: "updateApiKey update_throws store cid body =
     updateApiKey update_throws store cid (\<lambda>f. if f \<in> set allowedUpdates then body f else None)"
    by (simp add: updateApiKey_def)
  have p: "map g (map protected_fields (snd (updateApiKey update_throws store cid body)))
           = map g (map protected_fields store)" for g :: "_ \<Rightarrow> 'b"
    by (simp only: update_protected)
  show ?thesis
    using a p [of fst] p [of "\<lambda>p. fst (snd p)"] p [of "\<lambda>p. fst (snd (snd p))"]
      p [of "\<lambda>p. fst (snd (snd (snd p)))"] p [of "\<lambda>p. fst (snd (snd (snd (snd p))))"]
      p [of "\<lambda>p. snd (snd (snd (snd (snd p))))"]
    by (simp add: protected_fields_def comp_def)
qed

theorem update_allow_list_witness:
  "updateApiKey False [acme] ''acme_1'' update_body =
     updateApiKey False [acme] ''acme_1'' (map_of [(''rateLimit'', JNum 7)])
   \<and> snd (updateApiKey False [acme] ''acme_1'' update_body) = [acme\<lparr>rateLimit := 7\<rparr>]
   \<and> (\<exists>js. fst (updateApiKey False [acme] ''acme_1'' update_body) = Respond 200 js)"
proof -
  have r: "(\<lambda>f. if f \<in> set allowedUpdates then update_body f else None)
           = map_of [(''rateLimit'', JNum 7)]"
    by (rule ext) (simp add: allowedUpdates_def update_body_def)
  have e: "updateApiKey False [acme] ''acme_1'' (map_of [(''rateLimit'', JNum 7)]) =
             (Respond 200 [(''success'', JBool True),
                           (''message'', JStr ''API key updated successfully''),
                           (''data'', toJSON (select_minus_key (acme\<lparr>rateLimit := 7\<rparr>)))],
              [acme\<lparr>rateLimit := 7\<rparr>])"
    by (simp add: updateApiKey_def allowedUpdates_def ApiKey_findOneAndUpdate_def set_path_def
        acme_def index_violation_def)
  have t: "updateApiKey False [acme] ''acme_1'' update_body =
             updateApiKey False [acme] ''acme_1'' (map_of [(''rateLimit'', JNum 7)])"
    using update_allow_list [of False "[acme]" "''acme_1''" update_body]
    unfolding r by (rule conjunct1)
  show ?thesis unfolding t e by simp
qed

section \<open>Revoking a key\<close>

lemma soft_delete_deactivates:
  assumes "find (\<lambda>d. clientId d = cid) store = Some d" and "hardDelete \<noteq> Some ''true''"
  shows "deleteApiKey False store cid hardDelete =
           (Respond 200 [(''success'', JBool True), (''message'', JStr ''API key deactivated'')],
            replace_first (\<lambda>d. clientId d = cid) (d\<lparr>isActive := False\<rparr>) store)"
  using assms
  by (simp add: deleteApiKey_def ApiKey_findOneAndUpdate_def set_path_def index_violation_def)

lemma find_delete_first:
  "distinct (map f xs) \<Longrightarrow> find (\<lambda>d. f d = v) (delete_first (\<lambda>d. f d = v) xs) = None"
proof (induction xs)
  case Nil
  then show ?case by simp
next
  case (Cons x xs)
  show ?case
  proof (cases "f x = v")
    case True
    have "f x \<notin> f ` set xs" using Cons.prems by simp
    then have "\<And>y. y \<in> set xs \<Longrightarrow> f y \<noteq> v" using True by (metis image_eqI)
    then show ?thesis using True by (simp add: find_None_iff)
  next
    case False
    then show ?thesis using Cons by simp
  qed
qed

lemma hard_delete_removes:
  assumes "distinct (map clientId store)"
  shows "deleteApiKey False store cid (Some ''true'') =
           (Respond 200 [(''success'', JBool True),
                         (''message'', JStr ''API key deleted permanently'')],
            delete_first (\<lambda>d. clientId d = cid) store)
       \<and> find (\<lambda>d. clientId d = cid) (delete_first (\<lambda>d. clientId d = cid) store) = None"
  using assms
  by (simp add: deleteApiKey_def ApiKey_findOneAndDelete_def find_delete_first)

lemma soft_delete_keeps_record:
  assumes "find (\<lambda>d. clientId d = cid) store = Some d" and "hardDelete \<noteq> Some ''true''"
  shows "find (\<lambda>d. clientId d = cid) (snd (deleteApiKey False store cid hardDelete)) =
           Some (d\<lparr>isActive := False\<rparr>)"
proof -
  have "clientId (d\<lparr>isActive := False\<rparr>) = cid" using find_Some_mem [OF assms(1)] by simp
  with assms(1)
  have "find (\<lambda>d. clientId d = cid)
          (replace_first (\<lambda>d. clientId d = cid) (d\<lparr>isActive := False\<rparr>) store) =
        Some (d\<lparr>isActive := False\<rparr>)"
    by (rule find_replace_first)
  then show ?thesis using soft_delete_deactivates [OF assms] by simp
qed

lemma delete_first_others:
  "find q xs = Some d \<Longrightarrow> distinct (map key xs) \<Longrightarrow> e \<in> set (delete_first q xs) \<Longrightarrow>
   e \<in> set xs \<and> key e \<noteq> key d"
proof (induction xs)
  case Nil
  then show ?case by simp
next
  case (Cons x xs)
  have nx: "key x \<notin> key ` set xs" using Cons.prems(2) by simp
  show ?case
  proof (cases "q x")
    case True
    then have dx: "d = x" using Cons.prems(1) by simp
    have "e \<in> set xs" using True Cons.prems(3) by simp
    moreover have "\<And>y. y \<in> set xs \<Longrightarrow> key y \<noteq> key x" using nx by (metis image_eqI)
    ultimately show ?thesis using dx by auto
  next
    case False
    then have f: "find q xs = Some d" using Cons.prems by simp
    then have "d \<in> set xs" by (simp add: find_Some_mem)
    then have "key x \<noteq> key d" using nx by (metis image_eqI)
    moreover have "distinct (map key xs)" using Cons.prems(2) by simp
    moreover have "e = x \<or> e \<in> set (delete_first q xs)" using False Cons.prems(3) by simp
    ultimately show ?thesis using f Cons.IH by auto
  qed
qed

lemma hard_delete_key_unknown:
  assumes "distinct (map key store)" and "find (\<lambda>d. clientId d = cid) store = Some d"
    and "key d = Some k" and "extractApiKey req = Some k" and "k \<noteq> []"
  shows "authenticateApiKey False save_throws now
           (snd (deleteApiKey False store cid (Some ''true''))) req =
           (Respond 401 [(''success'', JBool False), (''error'', JStr ''Invalid API key''),
                         (''code'', JStr ''INVALID_API_KEY'')], req,
            snd (deleteApiKey False store cid (Some ''true'')))"
proof -
  let ?s = "delete_first (\<lambda>d. clientId d = cid) store"
  have "key e \<noteq> Some k" if "e \<in> set ?s" for e
    using delete_first_others [OF assms(2,1) that] assms(3) by simp
  then have "find (\<lambda>d. key d = Some k) ?s = None" by (auto simp: find_None_iff)
  with assms(4,5) have "authenticateApiKey False save_throws now ?s req =
           (Respond 401 [(''success'', JBool False), (''error'', JStr ''Invalid API key''),
                         (''code'', JStr ''INVALID_API_KEY'')], req, ?s)"
    by (rule auth_unknown_key)
  then show ?thesis by (simp add: deleteApiKey_def ApiKey_findOneAndDelete_def)
qed

lemma map_entries_unselected:
  "ks \<noteq> [] \<Longrightarrow> \<forall>k\<in>set ks. key k = None \<Longrightarrow> map_entries ks = Inl TypeError"
  by (cases ks) (simp_all add: list_entry_def keyPreview_def)

lemma listApiKeys_nonempty_fails:
  assumes "filter (list_query rx active search) store \<noteq> []"
  shows "listApiKeys rx False store active search =
           Respond 500 [(''success'', JBool False), (''error'', JStr ''Failed to list API keys'')]"
proof -
  let ?keys = "sort_key (\<lambda>d. - createdAt d)
                 (map select_minus_key (filter (list_query rx active search) store))"
  have "?keys \<noteq> []" using assms by (metis length_0_conv length_sort length_map)
  moreover have "\<forall>k\<in>set ?keys. key k = None" by (auto simp: select_minus_key_def)
  ultimately have "map_entries ?keys = Inl TypeError" by (rule map_entries_unselected)
  then show ?thesis
    by (simp add: listApiKeys_def listApiKeys_try_def ApiKey_find_def)
qed

lemma getApiKey_found_fails:
  "find (\<lambda>d. clientId d = cid) store = Some d \<Longrightarrow>
   getApiKey False store cid =
     Respond 500 [(''success'', JBool False), (''error'', JStr ''Failed to fetch API key'')]"
  by (simp add: getApiKey_def ApiKey_findOne_def select_minus_key_def keyPreview_def)

text \<open>
  Claim C10. Deleting a \<^verbatim>\<open>clientId\<close> that no record has is answered with 200 and
  the message of the chosen mode, and the collection is unchanged.
\<close>

theorem delete_missing_client_succeeds:
  assumes "find (\<lambda>d. clientId d = cid) store = None"
  shows "deleteApiKey False store cid hardDelete =
     (Respond 200 [(''success'', JBool True),
                   (''message'', JStr (if hardDelete = Some ''true''
                                       then ''API key deleted permanently''
                                       else ''API key deactivated''))], store)"
  using assms delete_first_no_match [OF assms]
  by (simp add: deleteApiKey_def ApiKey_findOneAndDelete_def ApiKey_findOneAndUpdate_def)

theorem delete_missing_client_succeeds_witness:
  "deleteApiKey False [acme] ''nobody'' None =
     (Respond 200 [(''success'', JBool True), (''message'', JStr ''API key deactivated'')], [acme])
   \<and> deleteApiKey False [acme] ''nobody'' (Some ''true'') =
     (Respond 200 [(''success'', JBool True), (''message'', JStr ''API key deleted permanently'')],
      [acme])"
  using delete_missing_client_succeeds [of "''nobody''" "[acme]" None]
    delete_missing_client_succeeds [of "''nobody''" "[acme]" "Some ''true''"]
  by (simp add: acme_def)

text \<open>
  Claim C5. A soft delete keeps the record with \<^verbatim>\<open>isActive = false\<close>, but the listing
  cannot return it: the documents are read without their key and the key preview then
  throws, so \<^verbatim>\<open>listApiKeys\<close> answers 500 whenever the query matches a record.
\<close>

theorem soft_revoke_listing_fails:
  "deleteApiKey False [acme] ''acme_1'' None =
     (Respond 200 [(''success'', JBool True), (''message'', JStr ''API key deactivated'')],
      [acme\<lparr>isActive := False\<rparr>])
   \<and> listApiKeys (\<lambda>pattern s. False) False [acme\<lparr>isActive := False\<rparr>] None None =
       Respond 500 [(''success'', JBool False), (''error'', JStr ''Failed to list API keys'')]
   \<and> listApiKeys (\<lambda>pattern s. False) False [acme\<lparr>isActive := False\<rparr>] (Some ''false'') None =
       Respond 500 [(''success'', JBool False), (''error'', JStr ''Failed to list API keys'')]"
  by (simp add: deleteApiKey_def ApiKey_findOneAndUpdate_def set_path_def index_violation_def acme_def
      listApiKeys_def listApiKeys_try_def ApiKey_find_def list_query_def select_minus_key_def
      list_entry_def keyPreview_def)

end
